theory Spec2Isabelle
  imports Complex_Main
begin

section \<open>Values, errors and the event model (Backtester/event.py)\<close>

text \<open>
  Python floats are modelled as exact reals: no rounding and no infinities. Python
  integers are \<open>int\<close>. A \<open>datetime\<close> is a point of a linear order, here an integer
  count of ticks. Exceptions are values of \<open>error\<close>; a function that can raise returns
  \<open>error + 'a\<close> with \<open>Inl\<close> for the exception. \<open>OutOfModel\<close> is no exception of
  Python: it marks a float that the reals cannot hold (a division by zero, which numpy
  answers with an infinity or NaN) or a column entry that is no number.
\<close>

type_synonym symbol = string
type_synonym datetime = int

datatype error = KeyError | IndexError | AttributeError | TypeError | OutOfModel

definition and_then :: "error + 'a \<Rightarrow> ('a \<Rightarrow> error + 'b) \<Rightarrow> error + 'b" where
  "and_then m f = (case m of Inl e \<Rightarrow> Inl e | Inr x \<Rightarrow> f x)"

text \<open>
  The four event classes, each with its fields in the order of its constructor's
  parameters. \<open>OtherEvent ty\<close> stands for any other object put on the queue whose only
  attribute is \<open>type = ty\<close>. The attribute \<open>type\<close> is \<open>event_type\<close>.
\<close>

datatype event =
    MarketEvent
  | SignalEvent int symbol datetime string real
  | OrderEvent symbol string int string
  | FillEvent datetime symbol string int string real real
  | OtherEvent string

fun event_type :: "event \<Rightarrow> string" where
  "event_type MarketEvent = ''MARKET''"
| "event_type (SignalEvent strategy_id symbol dt signal_type strength) = ''SIGNAL''"
| "event_type (OrderEvent symbol order_type quantity direction) = ''ORDER''"
| "event_type (FillEvent timeindex symbol exchange quantity direction fill_cost commission) = ''FILL''"
| "event_type (OtherEvent ty) = ty"

fun fill_commission :: "event \<Rightarrow> real" where
  "fill_commission (FillEvent timeindex symbol exchange quantity direction fill_cost commission) = commission"
| "fill_commission _ = 0"

text \<open>\<open>FillEvent.calculate_commission\<close>: 0.005 per share, or 1.0 when that is not above 1.\<close>

definition calculate_commission :: "int \<Rightarrow> real" where
  "calculate_commission quantity =
     (if real_of_int quantity * 0.005 > 1 then real_of_int quantity * 0.005 else 1.0)"

text \<open>\<open>FillEvent.__init__\<close>: the optional argument \<open>commission\<close> defaults to \<open>None\<close>.\<close>

definition FillEvent_init ::
  "datetime \<Rightarrow> symbol \<Rightarrow> string \<Rightarrow> int \<Rightarrow> string \<Rightarrow> real \<Rightarrow> real option \<Rightarrow> event" where
  "FillEvent_init timeindex symbol exchange quantity direction fill_cost commission =
     FillEvent timeindex symbol exchange quantity direction fill_cost
       (case commission of None \<Rightarrow> calculate_commission quantity | Some c \<Rightarrow> c)"

section \<open>The event queue (queue.Queue, as backtest.py uses it)\<close>

text \<open>
  The queue is the list of its items, oldest first. An item is \<open>Some e\<close> for an event
  and \<open>None\<close> for Python's \<open>None\<close>. \<open>queue_get\<close> is \<open>get(False)\<close>: its \<open>None\<close> result is
  the exception \<open>queue.Empty\<close>.
\<close>

type_synonym event_queue = "event option list"

definition queue_put :: "event_queue \<Rightarrow> event option \<Rightarrow> event_queue" where
  "queue_put q item = q @ [item]"

definition queue_get :: "event_queue \<Rightarrow> (event option \<times> event_queue) option" where
  "queue_get q = (case q of [] \<Rightarrow> None | item # rest \<Rightarrow> Some (item, rest))"

section \<open>The historic data handler (Strategies/hft_data.py)\<close>

text \<open>
  A bar is the pair that \<open>iterrows\<close> yields: the index (a datetime) and the row with
  the columns open, high, low, close and volume. \<open>symbol_data\<close> holds, per symbol, the
  rows its iterator has not yet yielded; reading the CSV files is outside the model.
\<close>

record ohlcv =
  bar_open :: real
  bar_high :: real
  bar_low :: real
  bar_close :: real
  bar_volume :: real

type_synonym bar = "datetime \<times> ohlcv"

record data_handler =
  symbol_list :: "symbol list"
  symbol_data :: "symbol \<rightharpoonup> bar list"
  latest_symbol_data :: "symbol \<rightharpoonup> bar list"
  continue_backtest :: bool

definition getattr_bar :: "ohlcv \<Rightarrow> string \<Rightarrow> error + real" where
  "getattr_bar r val_type =
     (if val_type = ''open'' then Inr (bar_open r)
      else if val_type = ''high'' then Inr (bar_high r)
      else if val_type = ''low'' then Inr (bar_low r)
      else if val_type = ''close'' then Inr (bar_close r)
      else if val_type = ''volume'' then Inr (bar_volume r)
      else Inl AttributeError)"

definition get_latest_bar_datetime :: "data_handler \<Rightarrow> symbol \<Rightarrow> error + datetime" where
  "get_latest_bar_datetime dh symbol =
     (case latest_symbol_data dh symbol of
        None \<Rightarrow> Inl KeyError
      | Some bars_list \<Rightarrow> (if bars_list = [] then Inl IndexError else Inr (fst (last bars_list))))"

definition get_latest_bar_value :: "data_handler \<Rightarrow> symbol \<Rightarrow> string \<Rightarrow> error + real" where
  "get_latest_bar_value dh symbol val_type =
     (case latest_symbol_data dh symbol of
        None \<Rightarrow> Inl KeyError
      | Some bars_list \<Rightarrow>
          (if bars_list = [] then Inl IndexError else getattr_bar (snd (last bars_list)) val_type))"

text \<open>
  \<open>update_bars\<close>: the loop over \<open>symbol_list\<close>. An exhausted iterator (\<open>StopIteration\<close>)
  clears \<open>continue_backtest\<close>; otherwise the bar moves to \<open>latest_symbol_data\<close>. After
  the loop a \<open>MarketEvent\<close> is put on the queue in either case.
\<close>

fun update_bars_loop :: "symbol list \<Rightarrow> data_handler \<Rightarrow> error + data_handler" where
  "update_bars_loop [] dh = Inr dh"
| "update_bars_loop (s # ss) dh =
     (case symbol_data dh s of
        None \<Rightarrow> Inl KeyError
      | Some [] \<Rightarrow> update_bars_loop ss (dh\<lparr>continue_backtest := False\<rparr>)
      | Some (b # rest) \<Rightarrow>
          (case latest_symbol_data dh s of
             None \<Rightarrow> Inl KeyError
           | Some l \<Rightarrow>
               update_bars_loop ss
                 (dh\<lparr>symbol_data := (symbol_data dh)(s \<mapsto> rest),
                     latest_symbol_data := (latest_symbol_data dh)(s \<mapsto> l @ [b])\<rparr>)))"

definition update_bars :: "data_handler \<Rightarrow> event_queue \<Rightarrow> error + data_handler \<times> event_queue" where
  "update_bars dh q =
     and_then (update_bars_loop (symbol_list dh) dh)
       (\<lambda>dh'. Inr (dh', queue_put q (Some MarketEvent)))"

text \<open>
  \<open>HistoricCSVDataHandlerHFT.__init__\<close> after \<open>_open_convert_csv_files\<close>: \<open>rows s\<close> is
  the list of rows that the reindexed frame of symbol \<open>s\<close> will yield, in order.
\<close>

definition HistoricCSVDataHandlerHFT_init :: "symbol list \<Rightarrow> (symbol \<Rightarrow> bar list) \<Rightarrow> data_handler" where
  "HistoricCSVDataHandlerHFT_init sl rows =
     \<lparr>symbol_list = sl,
      symbol_data = map_of (map (\<lambda>s. (s, rows s)) sl),
      latest_symbol_data = map_of (map (\<lambda>s. (s, [])) sl),
      continue_backtest = True\<rparr>"

section \<open>The portfolio (Strategies/hft_portfolio.py)\<close>

text \<open>
  The histories \<open>all_positions\<close> and \<open>all_holdings\<close> are lists of dictionaries. A
  dictionary is a map from its string keys; as in the source, the symbols share one key
  space with \<open>datetime\<close>, \<open>cash\<close>, \<open>commission\<close> and \<open>total\<close>. A value of a history
  row is a number (\<open>Num\<close>, for an int as for a float) or a datetime (\<open>Stamp\<close>). The attributes \<open>bars\<close> and \<open>events\<close> refer to objects
  shared with the backtest: the functions below take them as arguments, and return the
  queue when they put an item on it. \<open>p_symbol_list\<close> is the attribute \<open>symbol_list\<close>.
\<close>

datatype val = Num real | Stamp datetime

type_synonym row = "string \<rightharpoonup> val"

record portfolio =
  p_symbol_list :: "symbol list"
  start_date :: datetime
  initial_capital :: real
  all_positions :: "row list"
  current_positions :: "symbol \<rightharpoonup> int"
  all_holdings :: "row list"
  current_holdings :: "string \<rightharpoonup> real"

text \<open>\<open>dict((k, v) for k, v in [(s, v) for s in symbol_list])\<close>\<close>

definition symbol_dict :: "symbol list \<Rightarrow> 'v \<Rightarrow> (string \<rightharpoonup> 'v)" where
  "symbol_dict sl v = map_of (map (\<lambda>s. (s, v)) sl)"

definition construct_all_positions :: "symbol list \<Rightarrow> datetime \<Rightarrow> row list" where
  "construct_all_positions sl sd = [(symbol_dict sl (Num 0))(''datetime'' \<mapsto> Stamp sd)]"

definition construct_all_holdings :: "symbol list \<Rightarrow> datetime \<Rightarrow> real \<Rightarrow> row list" where
  "construct_all_holdings sl sd capital =
     [(symbol_dict sl (Num 0))
        (''datetime'' \<mapsto> Stamp sd, ''cash'' \<mapsto> Num capital,
         ''commission'' \<mapsto> Num 0, ''total'' \<mapsto> Num capital)]"

definition construct_current_holdings :: "symbol list \<Rightarrow> real \<Rightarrow> (string \<rightharpoonup> real)" where
  "construct_current_holdings sl capital =
     (symbol_dict sl 0)(''cash'' \<mapsto> capital, ''commission'' \<mapsto> 0, ''total'' \<mapsto> capital)"

definition PortfolioHFT_init :: "data_handler \<Rightarrow> datetime \<Rightarrow> real \<Rightarrow> portfolio" where
  "PortfolioHFT_init bars sd capital =
     \<lparr>p_symbol_list = symbol_list bars,
      start_date = sd,
      initial_capital = capital,
      all_positions = construct_all_positions (symbol_list bars) sd,
      current_positions = symbol_dict (symbol_list bars) 0,
      all_holdings = construct_all_holdings (symbol_list bars) sd capital,
      current_holdings = construct_current_holdings (symbol_list bars) capital\<rparr>"

text \<open>
  \<open>update_timeindex\<close>, first loop: \<open>dp[s] = self.current_positions[s]\<close> for every
  symbol of the list.
\<close>

fun copy_positions :: "symbol list \<Rightarrow> (symbol \<rightharpoonup> int) \<Rightarrow> row \<Rightarrow> error + row" where
  "copy_positions [] cp dp = Inr dp"
| "copy_positions (s # ss) cp dp =
     (case cp s of
        None \<Rightarrow> Inl KeyError
      | Some n \<Rightarrow> copy_positions ss cp (dp(s \<mapsto> Num (real_of_int n))))"

text \<open>
  \<open>update_timeindex\<close>, second loop: \<open>market_value\<close> is the current position times the
  latest close; \<open>dh[s] = market_value\<close>, then \<open>dh['total'] += market_value\<close>.
\<close>

fun mark_holdings :: "symbol list \<Rightarrow> data_handler \<Rightarrow> (symbol \<rightharpoonup> int) \<Rightarrow> row \<Rightarrow> error + row" where
  "mark_holdings [] bars cp dh = Inr dh"
| "mark_holdings (s # ss) bars cp dh =
     (case cp s of
        None \<Rightarrow> Inl KeyError
      | Some n \<Rightarrow>
          and_then (get_latest_bar_value bars s ''close'')
            (\<lambda>px. let market_value = real_of_int n * px;
                       dh1 = dh(s \<mapsto> Num market_value)
                   in (case dh1 ''total'' of
                         None \<Rightarrow> Inl KeyError
                       | Some (Stamp d) \<Rightarrow> Inl TypeError
                       | Some (Num t) \<Rightarrow>
                           mark_holdings ss bars cp (dh1(''total'' \<mapsto> Num (t + market_value))))))"

definition dict_get :: "('k \<rightharpoonup> 'v) \<Rightarrow> 'k \<Rightarrow> error + 'v" where
  "dict_get d k = (case d k of None \<Rightarrow> Inl KeyError | Some v \<Rightarrow> Inr v)"

text \<open>The parameter \<open>event\<close> of \<open>update_timeindex\<close> is unused, as the source remarks.\<close>

definition update_timeindex :: "data_handler \<Rightarrow> event \<Rightarrow> portfolio \<Rightarrow> error + portfolio" where
  "update_timeindex bars ev p =
     (case p_symbol_list p of
        [] \<Rightarrow> Inl IndexError
      | s0 # rest \<Rightarrow>
          and_then (get_latest_bar_datetime bars s0)
            (\<lambda>latest_datetime.
               and_then
                 (copy_positions (p_symbol_list p) (current_positions p)
                    ((symbol_dict (p_symbol_list p) (Num 0))(''datetime'' \<mapsto> Stamp latest_datetime)))
                 (\<lambda>dp.
                    and_then (dict_get (current_holdings p) ''cash'')
                      (\<lambda>cash.
                         and_then (dict_get (current_holdings p) ''commission'')
                           (\<lambda>comm.
                              and_then
                                (mark_holdings (p_symbol_list p) bars (current_positions p)
                                   ((symbol_dict (p_symbol_list p) (Num 0))
                                      (''datetime'' \<mapsto> Stamp latest_datetime, ''cash'' \<mapsto> Num cash,
                                       ''commission'' \<mapsto> Num comm, ''total'' \<mapsto> Num cash)))
                                (\<lambda>dh.
                                   Inr (p\<lparr>all_positions := all_positions p @ [dp],
                                          all_holdings := all_holdings p @ [dh]\<rparr>)))))))"

text \<open>The sign of a fill: 0, set to 1 for \<open>BUY\<close>, then set to -1 for \<open>SELL\<close>.\<close>

definition fill_dir :: "string \<Rightarrow> int" where
  "fill_dir direction =
     (let d0 = 0;
          d1 = (if direction = ''BUY'' then 1 else d0);
          d2 = (if direction = ''SELL'' then - 1 else d1)
      in d2)"

text \<open>\<open>d[k] += x\<close> on a dictionary of numbers.\<close>

definition dict_add :: "('k \<rightharpoonup> 'a::plus) \<Rightarrow> 'k \<Rightarrow> 'a \<Rightarrow> error + ('k \<rightharpoonup> 'a)" where
  "dict_add d k x = (case d k of None \<Rightarrow> Inl KeyError | Some v \<Rightarrow> Inr (d(k \<mapsto> v + x)))"

text \<open>\<open>d[k] -= x\<close>\<close>

definition dict_sub :: "('k \<rightharpoonup> 'a::minus) \<Rightarrow> 'k \<Rightarrow> 'a \<Rightarrow> error + ('k \<rightharpoonup> 'a)" where
  "dict_sub d k x = (case d k of None \<Rightarrow> Inl KeyError | Some v \<Rightarrow> Inr (d(k \<mapsto> v - x)))"

definition update_positions_from_fill ::
  "symbol \<Rightarrow> int \<Rightarrow> string \<Rightarrow> portfolio \<Rightarrow> error + portfolio" where
  "update_positions_from_fill symbol quantity direction p =
     and_then (dict_add (current_positions p) symbol (fill_dir direction * quantity))
       (\<lambda>cp. Inr (p\<lparr>current_positions := cp\<rparr>))"

definition update_holdings_from_fill ::
  "data_handler \<Rightarrow> symbol \<Rightarrow> int \<Rightarrow> string \<Rightarrow> real \<Rightarrow> portfolio \<Rightarrow> error + portfolio" where
  "update_holdings_from_fill bars symbol quantity direction commission p =
     and_then (get_latest_bar_value bars symbol ''close'')
       (\<lambda>fill_cost.
          let cost = real_of_int (fill_dir direction) * fill_cost * real_of_int quantity in
          and_then (dict_add (current_holdings p) symbol cost)
            (\<lambda>h1. and_then (dict_add h1 ''commission'' commission)
               (\<lambda>h2. and_then (dict_sub h2 ''cash'' (cost + commission))
                  (\<lambda>h3. and_then (dict_sub h3 ''total'' (cost + commission))
                     (\<lambda>h4. Inr (p\<lparr>current_holdings := h4\<rparr>))))))"

text \<open>
  \<open>update_fill\<close> acts on an event whose \<open>type\<close> is \<open>FILL\<close>. An object of that type
  without the fields of a fill raises \<open>AttributeError\<close> at \<open>fill.direction\<close>.
\<close>

fun update_fill :: "data_handler \<Rightarrow> event \<Rightarrow> portfolio \<Rightarrow> error + portfolio" where
  "update_fill bars (FillEvent timeindex symbol exchange quantity direction fill_cost commission) p =
     and_then (update_positions_from_fill symbol quantity direction p)
       (update_holdings_from_fill bars symbol quantity direction commission)"
| "update_fill bars (OtherEvent ty) p = (if ty = ''FILL'' then Inl AttributeError else Inr p)"
| "update_fill bars ev p = Inr p"

text \<open>
  \<open>generate_naive_order\<close>: \<open>order\<close> starts as \<open>None\<close> and each of the four tests may
  assign it, in the order of the source.
\<close>

fun generate_naive_order :: "event \<Rightarrow> portfolio \<Rightarrow> error + event option" where
  "generate_naive_order (SignalEvent strategy_id symbol dt direction strength) p =
     (let mkt_quantity = 100; order_type = ''MKT'' in
      and_then (dict_get (current_positions p) symbol)
        (\<lambda>cur_quantity.
           let o0 = None;
               o1 = (if direction = ''LONG'' \<and> cur_quantity = 0
                     then Some (OrderEvent symbol order_type mkt_quantity ''BUY'') else o0);
               o2 = (if direction = ''SHORT'' \<and> cur_quantity = 0
                     then Some (OrderEvent symbol order_type mkt_quantity ''SELL'') else o1);
               o3 = (if direction = ''EXIT'' \<and> cur_quantity > 0
                     then Some (OrderEvent symbol order_type \<bar>cur_quantity\<bar> ''SELL'') else o2);
               o4 = (if direction = ''EXIT'' \<and> cur_quantity < 0
                     then Some (OrderEvent symbol order_type \<bar>cur_quantity\<bar> ''BUY'') else o3)
           in Inr o4))"
| "generate_naive_order ev p = Inl AttributeError"

text \<open>
  \<open>update_signal\<close>: whatever \<open>generate_naive_order\<close> returns is put on the queue, an
  order or \<open>None\<close>. The portfolio is returned as it was.
\<close>

definition update_signal :: "event \<Rightarrow> portfolio \<Rightarrow> event_queue \<Rightarrow> error + portfolio \<times> event_queue" where
  "update_signal ev p q =
     (if event_type ev = ''SIGNAL''
      then and_then (generate_naive_order ev p) (\<lambda>order_event. Inr (p, queue_put q order_event))
      else Inr (p, q))"

section \<open>The simulation loop (backtest.py)\<close>

text \<open>
  The strategy and the execution handler are classes handed to \<open>Backtest\<close>: they are
  parameters here. Each is a function from its own state and what it reads to its new
  state and the items it puts on the queue, in order. A strategy holds the data handler
  and the queue; an execution handler holds the queue only.
\<close>

type_synonym 's calculate_signals = "'s \<Rightarrow> data_handler \<Rightarrow> event \<Rightarrow> error + 's \<times> event option list"
type_synonym 'x execute_order = "'x \<Rightarrow> event \<Rightarrow> error + 'x \<times> event option list"

record ('s, 'x) backtest =
  events :: event_queue
  signals :: int
  orders :: int
  fills :: int
  bt_data_handler :: data_handler
  bt_strategy :: 's
  bt_portfolio :: portfolio
  bt_execution_handler :: 'x

text \<open>
  The body of the \<open>else\<close> branch of the inner loop: what is done with one dequeued item.
  The chain of \<open>if\<close> and \<open>elif\<close> has no final \<open>else\<close>.
\<close>

definition handle_event ::
  "'s calculate_signals \<Rightarrow> 'x execute_order \<Rightarrow> event option \<Rightarrow> ('s, 'x) backtest
     \<Rightarrow> error + ('s, 'x) backtest" where
  "handle_event calc exec item b =
     (case item of
        None \<Rightarrow> Inr b
      | Some ev \<Rightarrow>
          if event_type ev = ''MARKET'' then
            and_then (calc (bt_strategy b) (bt_data_handler b) ev)
              (\<lambda>(st, out).
                 and_then (update_timeindex (bt_data_handler b) ev (bt_portfolio b))
                   (\<lambda>p. Inr (b\<lparr>events := events b @ out, bt_strategy := st, bt_portfolio := p\<rparr>)))
          else if event_type ev = ''SIGNAL'' then
            and_then (update_signal ev (bt_portfolio b) (events b))
              (\<lambda>(p, q). Inr (b\<lparr>events := q, signals := signals b + 1, bt_portfolio := p\<rparr>))
          else if event_type ev = ''ORDER'' then
            and_then (exec (bt_execution_handler b) ev)
              (\<lambda>(x, out).
                 Inr (b\<lparr>events := events b @ out, orders := orders b + 1,
                        bt_execution_handler := x\<rparr>))
          else if event_type ev = ''FILL'' then
            and_then (update_fill (bt_data_handler b) ev (bt_portfolio b))
              (\<lambda>p. Inr (b\<lparr>fills := fills b + 1, bt_portfolio := p\<rparr>))
          else Inr b)"

text \<open>
  The inner loop (Drain): dequeue until \<open>queue.Empty\<close>. The first argument after the
  collaborators is fuel: \<open>None\<close> means that the loop did not finish within it.
\<close>

fun drain ::
  "'s calculate_signals \<Rightarrow> 'x execute_order \<Rightarrow> nat \<Rightarrow> ('s, 'x) backtest
     \<Rightarrow> (error + ('s, 'x) backtest) option" where
  "drain calc exec 0 b = None"
| "drain calc exec (Suc n) b =
     (case queue_get (events b) of
        None \<Rightarrow> Some (Inr b)
      | Some (item, rest) \<Rightarrow>
          (case handle_event calc exec item (b\<lparr>events := rest\<rparr>) of
             Inl e \<Rightarrow> Some (Inl e)
           | Inr b' \<Rightarrow> drain calc exec n b'))"

text \<open>
  Two observations of the same loop: the items it dequeues, in the order it dequeues
  them, and the items put on the queue while it runs, in the order they are put.
\<close>

fun drain_log ::
  "'s calculate_signals \<Rightarrow> 'x execute_order \<Rightarrow> nat \<Rightarrow> ('s, 'x) backtest \<Rightarrow> event option list" where
  "drain_log calc exec 0 b = []"
| "drain_log calc exec (Suc n) b =
     (case queue_get (events b) of
        None \<Rightarrow> []
      | Some (item, rest) \<Rightarrow>
          item # (case handle_event calc exec item (b\<lparr>events := rest\<rparr>) of
                    Inl e \<Rightarrow> []
                  | Inr b' \<Rightarrow> drain_log calc exec n b'))"


text \<open>
  The outer loop: Advance (\<open>update_bars\<close> while \<open>continue_backtest\<close> holds), then Drain.
  \<open>advance\<close> is the call \<open>self.data_handler.update_bars()\<close>, which changes the data
  handler and the queue of the backtest. \<open>m\<close> is the fuel of each Drain, the next
  argument the fuel of the outer loop. The counter \<open>i\<close> is never read and \<open>time.sleep\<close>
  changes no state: both are left out.
\<close>

definition advance :: "('s, 'x) backtest \<Rightarrow> error + ('s, 'x) backtest" where
  "advance b =
     and_then (update_bars (bt_data_handler b) (events b))
       (\<lambda>(dh, q). Inr (b\<lparr>events := q, bt_data_handler := dh\<rparr>))"

fun run_backtest ::
  "'s calculate_signals \<Rightarrow> 'x execute_order \<Rightarrow> nat \<Rightarrow> nat \<Rightarrow> ('s, 'x) backtest
     \<Rightarrow> (error + ('s, 'x) backtest) option" where
  "run_backtest calc exec m 0 b = None"
| "run_backtest calc exec m (Suc n) b =
     (if continue_backtest (bt_data_handler b) = True then
        (case advance b of
           Inl e \<Rightarrow> Some (Inl e)
         | Inr b1 \<Rightarrow>
             (case drain calc exec m b1 of
                None \<Rightarrow> None
              | Some (Inl e) \<Rightarrow> Some (Inl e)
              | Some (Inr b') \<Rightarrow> run_backtest calc exec m n b'))
      else Some (Inr b))"

text \<open>\<open>Backtest.__init__\<close> with \<open>_generate_trading_instances\<close>, for the classes of this repository.\<close>

definition Backtest_init ::
  "symbol list \<Rightarrow> (symbol \<Rightarrow> bar list) \<Rightarrow> real \<Rightarrow> datetime \<Rightarrow> 's \<Rightarrow> 'x \<Rightarrow> ('s, 'x) backtest" where
  "Backtest_init sl rows capital sd st x =
     \<lparr>events = [], signals = 0, orders = 0, fills = 0,
      bt_data_handler = HistoricCSVDataHandlerHFT_init sl rows,
      bt_strategy = st,
      bt_portfolio = PortfolioHFT_init (HistoricCSVDataHandlerHFT_init sl rows) sd capital,
      bt_execution_handler = x\<rparr>"

section \<open>The equity curve and the drawdowns (hft_portfolio.py, performance.py)\<close>

text \<open>
  A pandas series of floats is a list of \<open>real option\<close>, \<open>None\<close> for NaN. The column
  \<open>total\<close> of the frame built from \<open>all_holdings\<close> is the list of the rows' totals.
\<close>

type_synonym series = "real option list"

fun total_column :: "row list \<Rightarrow> error + real list" where
  "total_column [] = Inr []"
| "total_column (r # rs) =
     (case r ''total'' of
        Some (Num x) \<Rightarrow> and_then (total_column rs) (\<lambda>xs. Inr (x # xs))
      | _ \<Rightarrow> Inl OutOfModel)"

text \<open>
  \<open>pct_change\<close>: NaN in the first place, then \<open>x(t) / x(t-1) - 1\<close>. \<open>ratios prev xs\<close>
  is the part after the first place, \<open>prev\<close> being the value before \<open>xs\<close>.
\<close>

fun ratios :: "real \<Rightarrow> real list \<Rightarrow> error + series" where
  "ratios prev [] = Inr []"
| "ratios prev (x # xs) =
     (if prev = 0 then Inl OutOfModel
      else and_then (ratios x xs) (\<lambda>rs. Inr (Some (x / prev - 1) # rs)))"

fun pct_change :: "real list \<Rightarrow> error + series" where
  "pct_change [] = Inr []"
| "pct_change (x # xs) = and_then (ratios x xs) (\<lambda>rs. Inr (None # rs))"

text \<open>\<open>1.0 + series\<close>: NaN stays NaN.\<close>

definition series_add :: "real \<Rightarrow> series \<Rightarrow> series" where
  "series_add c xs = map (map_option (\<lambda>x. c + x)) xs"

text \<open>
  \<open>cumprod\<close> with pandas' default \<open>skipna=True\<close>: a NaN place stays NaN and does not
  enter the running product.
\<close>

fun cumprod_from :: "real \<Rightarrow> series \<Rightarrow> series" where
  "cumprod_from acc [] = []"
| "cumprod_from acc (None # xs) = None # cumprod_from acc xs"
| "cumprod_from acc (Some x # xs) = Some (acc * x) # cumprod_from (acc * x) xs"

definition cumprod :: "series \<Rightarrow> series" where
  "cumprod xs = cumprod_from 1 xs"

text \<open>\<open>create_equity_curve_dataframe\<close>: the columns \<open>returns\<close> and \<open>equity_curve\<close>.\<close>

definition create_equity_curve_dataframe :: "row list \<Rightarrow> error + series \<times> series" where
  "create_equity_curve_dataframe holdings =
     and_then (total_column holdings)
       (\<lambda>total. and_then (pct_change total)
          (\<lambda>returns. Inr (returns, cumprod (series_add 1.0 returns))))"

text \<open>
  Python's \<open>max(a, b)\<close> keeps \<open>a\<close> unless \<open>b > a\<close>; a comparison with NaN is false.
  Subtraction and addition give NaN when an operand is NaN.
\<close>

definition py_max :: "real \<Rightarrow> real option \<Rightarrow> real" where
  "py_max a b = (case b of None \<Rightarrow> a | Some y \<Rightarrow> if y > a then y else a)"

definition fsub :: "real \<Rightarrow> real option \<Rightarrow> real option" where
  "fsub a b = map_option (\<lambda>y. a - y) b"

definition fadd :: "real option \<Rightarrow> real \<Rightarrow> real option" where
  "fadd a c = map_option (\<lambda>x. x + c) a"

text \<open>
  The loop of \<open>create_drawdowns\<close> from index \<open>t\<close> on: \<open>hwm\<close> grows by one entry,
  \<open>drawdown\<close> and \<open>duration\<close> are assigned at \<open>t\<close>.
\<close>

function create_drawdowns_loop ::
  "nat \<Rightarrow> series \<Rightarrow> real list \<Rightarrow> series \<Rightarrow> series \<Rightarrow> real list \<times> series \<times> series" where
  "create_drawdowns_loop t pnl hwm drawdown duration =
     (if t < length pnl then
        let hwm1 = hwm @ [py_max (hwm ! (t - 1)) (pnl ! t)];
            drawdown1 = drawdown[t := fsub (hwm1 ! t) (pnl ! t)];
            duration1 = duration[t := (if drawdown1 ! t = Some 0 then Some 0
                                       else fadd (duration ! (t - 1)) 1)]
        in create_drawdowns_loop (t + 1) pnl hwm1 drawdown1 duration1
      else (hwm, drawdown, duration))"
  by pat_completeness auto
termination
  by (relation "measure (\<lambda>(t, pnl, hwm, drawdown, duration). length pnl - t)") auto

text \<open>\<open>Series.max()\<close> skips NaN; it is NaN when no number is left.\<close>

definition series_max :: "series \<Rightarrow> real option" where
  "series_max xs =
     (case map the (filter (\<lambda>x. x \<noteq> None) xs) of
        [] \<Rightarrow> None
      | v # vs \<Rightarrow> Some (fold max vs v))"

text \<open>
  \<open>create_drawdowns\<close>: \<open>hwm = [0]\<close>, both series start as NaN everywhere, the loop
  runs over \<open>range(1, len(idx))\<close>. \<open>drawdown_state\<close> is the state the loop ends in.
\<close>

definition drawdown_state :: "series \<Rightarrow> real list \<times> series \<times> series" where
  "drawdown_state pnl =
     create_drawdowns_loop 1 pnl [0] (replicate (length pnl) None) (replicate (length pnl) None)"

definition create_drawdowns :: "series \<Rightarrow> series \<times> real option \<times> real option" where
  "create_drawdowns pnl =
     (case drawdown_state pnl of
        (hwm, drawdown, duration) \<Rightarrow> (drawdown, series_max drawdown, series_max duration))"

text \<open>
  \<open>output_summary_stats\<close>, before the numbers are formatted: the last entry of the
  equity curve, the maximal drawdown and the drawdown duration.
\<close>

definition output_summary_stats :: "series \<Rightarrow> error + real option \<times> real option \<times> real option" where
  "output_summary_stats equity_curve =
     (if equity_curve = [] then Inl IndexError
      else (case create_drawdowns equity_curve of
              (drawdown, max_dd, dd_duration) \<Rightarrow> Inr (last equity_curve, max_dd, dd_duration)))"

section \<open>Observations and runs of the ledger\<close>



definition timestamps :: "row list \<Rightarrow> val option list" where
  "timestamps history = map (\<lambda>r. r ''datetime'') history"

text \<open>
  A run of the ledger is a sequence of calls of its three operations, each with the
  state of the data handler (and of the queue) at the time of the call.
\<close>

datatype ledger_call =
    Timeindex_call data_handler event
  | Signal_call event event_queue
  | Fill_call data_handler event

fun ledger_step :: "ledger_call \<Rightarrow> portfolio \<Rightarrow> error + portfolio" where
  "ledger_step (Timeindex_call bars ev) p = update_timeindex bars ev p"
| "ledger_step (Signal_call ev q) p = and_then (update_signal ev p q) (\<lambda>(p', q'). Inr p')"
| "ledger_step (Fill_call bars ev) p = update_fill bars ev p"

fun ledger_run :: "ledger_call list \<Rightarrow> portfolio \<Rightarrow> error + portfolio" where
  "ledger_run [] p = Inr p"
| "ledger_run (c # cs) p = and_then (ledger_step c p) (ledger_run cs)"

text \<open>
  The times the data handler reports for the symbol \<open>s0\<close> at the calls of
  \<open>update_timeindex\<close> in a run, in the order of the calls.
\<close>

fun reported_times :: "symbol \<Rightarrow> ledger_call list \<Rightarrow> datetime list" where
  "reported_times s0 [] = []"
| "reported_times s0 (Timeindex_call bars ev # cs) =
     (case get_latest_bar_datetime bars s0 of
        Inr t \<Rightarrow> t # reported_times s0 cs
      | Inl e \<Rightarrow> reported_times s0 cs)"
| "reported_times s0 (c # cs) = reported_times s0 cs"

fun timeindex_calls :: "ledger_call list \<Rightarrow> nat" where
  "timeindex_calls [] = 0"
| "timeindex_calls (Timeindex_call bars ev # cs) = Suc (timeindex_calls cs)"
| "timeindex_calls (c # cs) = timeindex_calls cs"

text \<open>Two signals handled one after the other, with nothing in between.\<close>

definition two_signals ::
  "event \<Rightarrow> event \<Rightarrow> portfolio \<Rightarrow> event_queue \<Rightarrow> error + portfolio \<times> event_queue" where
  "two_signals e1 e2 p q = and_then (update_signal e1 p q) (\<lambda>(p1, q1). update_signal e2 p1 q1)"

text \<open>What a loop with fuel ended in: a state, and no exception.\<close>

definition finished_ok :: "(error + 'a) option \<Rightarrow> bool" where
  "finished_ok r = (case r of Some (Inr b) \<Rightarrow> True | _ \<Rightarrow> False)"

definition final_portfolio :: "(error + ('s, 'x) backtest) option \<Rightarrow> portfolio option" where
  "final_portfolio r = (case r of Some (Inr b) \<Rightarrow> Some (bt_portfolio b) | _ \<Rightarrow> None)"

section \<open>Example collaborators and inputs\<close>

text \<open>A strategy that never signals, and one that puts the next entry of a prepared
  script at each \<open>MarketEvent\<close>.\<close>

definition no_signals :: "unit calculate_signals" where
  "no_signals st bars ev = Inr (st, [])"


text \<open>
  Modelled from the spec: \<open>execution.py\<close> (\<open>SimulatedExecutionHandler\<close>) is imported by
  the strategies but is not among the files. By the spec, \<open>execute_order\<close> puts exactly
  one \<open>FillEvent\<close> per order, a full and immediate fill; the commission is left to the
  default of \<open>FillEvent\<close>. It serves as an example collaborator only.
\<close>

definition simulated_execute_order :: "unit execute_order" where
  "simulated_execute_order x ev =
     (case ev of
        OrderEvent symbol order_type quantity direction \<Rightarrow>
          Inr (x, [Some (FillEvent_init 0 symbol ''ARCA'' quantity direction 0 None)])
      | _ \<Rightarrow> Inr (x, []))"

text \<open>A bar with every price equal to \<open>px\<close>, and a data handler as it stands after
  its first \<open>update_bars\<close> when each file holds that single bar.\<close>

definition flat_bar :: "datetime \<Rightarrow> real \<Rightarrow> bar" where
  "flat_bar d px = (d, \<lparr>bar_open = px, bar_high = px, bar_low = px, bar_close = px, bar_volume = 0\<rparr>)"

definition one_bar_feed :: "symbol list \<Rightarrow> datetime \<Rightarrow> real \<Rightarrow> data_handler" where
  "one_bar_feed sl d px =
     \<lparr>symbol_list = sl,
      symbol_data = symbol_dict sl [],
      latest_symbol_data = symbol_dict sl [flat_bar d px],
      continue_backtest = True\<rparr>"

text \<open>A portfolio that is long 100 shares of SPY after one fill, and a backtest that
  holds it, with an empty queue.\<close>

definition long_spy_portfolio :: portfolio where
  "long_spy_portfolio =
     (case update_fill (one_bar_feed [''SPY''] 1 10) (FillEvent 1 ''SPY'' ''ARCA'' 100 ''BUY'' 0 1)
             (PortfolioHFT_init (one_bar_feed [''SPY''] 1 10) 0 100000) of
        Inr p \<Rightarrow> p
      | Inl e \<Rightarrow> PortfolioHFT_init (one_bar_feed [''SPY''] 1 10) 0 100000)"

definition long_spy_backtest :: "(unit, unit) backtest" where
  "long_spy_backtest =
     \<lparr>events = [], signals = 1, orders = 1, fills = 1,
      bt_data_handler = one_bar_feed [''SPY''] 1 10,
      bt_strategy = (),
      bt_portfolio = long_spy_portfolio,
      bt_execution_handler = ()\<rparr>"

text \<open>A backtest over one symbol whose file holds a single bar, dated 1, with a start
  date of 0 and a strategy that never signals.\<close>

definition one_bar_rows :: "symbol \<Rightarrow> bar list" where
  "one_bar_rows s = [flat_bar 1 10]"

definition one_bar_backtest :: "(unit, unit) backtest" where
  "one_bar_backtest = Backtest_init [''SPY''] one_bar_rows 100000 0 () ()"


definition unknown_type_backtest :: "(unit, unit) backtest" where
  "unknown_type_backtest =
     \<lparr>events = [Some (OtherEvent ''TICK''), Some MarketEvent], signals = 0, orders = 0, fills = 0,
      bt_data_handler = one_bar_feed [''SPY''] 1 10,
      bt_strategy = (),
      bt_portfolio = PortfolioHFT_init (one_bar_feed [''SPY''] 1 10) 0 100000,
      bt_execution_handler = ()\<rparr>"

text \<open>A holdings history with the totals 100000, 101000 and 99000.\<close>

definition holdings_row :: "datetime \<Rightarrow> real \<Rightarrow> real \<Rightarrow> row" where
  "holdings_row d cash tot =
     [''datetime'' \<mapsto> Stamp d, ''cash'' \<mapsto> Num cash, ''commission'' \<mapsto> Num 0, ''total'' \<mapsto> Num tot]"

definition three_holdings :: "row list" where
  "three_holdings =
     [holdings_row 0 100000 100000, holdings_row 1 100000 101000, holdings_row 2 100000 99000]"

section \<open>The formulas of the specification for the equity curve\<close>

text \<open>
  These two follow the words of the specification, not the source: the return at \<open>t\<close>
  is \<open>total(t) / total(t-1) - 1\<close>, and the equity curve at \<open>t\<close> is the product of
  \<open>1 + return(i)\<close> over \<open>1 \<le> i \<le> t\<close>, which is 1 at \<open>t = 0\<close>. They are what the source's
  columns are compared with. \<open>equity_curve_of\<close> reads the column \<open>equity_curve\<close>.
\<close>

definition spec_return :: "real list \<Rightarrow> nat \<Rightarrow> real" where
  "spec_return totals t = totals ! t / totals ! (t - 1) - 1"

definition spec_equity_curve :: "real list \<Rightarrow> nat \<Rightarrow> real" where
  "spec_equity_curve totals t = (\<Prod>i = 1..t. 1 + spec_return totals i)"

definition equity_curve_of :: "row list \<Rightarrow> error + series" where
  "equity_curve_of holdings =
     and_then (create_equity_curve_dataframe holdings) (\<lambda>(returns, ec). Inr ec)"

section \<open>A measure of the queue\<close>






section \<open>Basic facts\<close>

lemma and_then_Inr [simp]: "and_then (Inr x) f = f x"
  by (simp add: and_then_def)

lemma and_then_Inl [simp]: "and_then (Inl e) f = Inl e"
  by (simp add: and_then_def)

lemma and_then_eq_Inr: "and_then m f = Inr y \<longleftrightarrow> (\<exists>x. m = Inr x \<and> f x = Inr y)"
  by (cases m) simp_all

lemma symbol_dict_apply: "symbol_dict sl v k = (if k \<in> set sl then Some v else None)"
  by (induction sl) (auto simp: symbol_dict_def)

lemma dict_add_eq_Inr: "dict_add d k x = Inr d' \<longleftrightarrow> (\<exists>v. d k = Some v \<and> d' = d(k \<mapsto> v + x))"
  by (auto simp: dict_add_def split: option.splits)

lemma dict_sub_eq_Inr: "dict_sub d k x = Inr d' \<longleftrightarrow> (\<exists>v. d k = Some v \<and> d' = d(k \<mapsto> v - x))"
  by (auto simp: dict_sub_def split: option.splits)

lemma dict_get_eq_Inr: "dict_get d k = Inr v \<longleftrightarrow> d k = Some v"
  by (auto simp: dict_get_def split: option.splits)

lemma finished_okE: "finished_ok (Some r) \<Longrightarrow> \<exists>x. r = Inr x"
  by (cases r) (simp_all add: finished_ok_def)

section \<open>The commission of a fill\<close>

text \<open>
  Claim C7. A \<open>FillEvent\<close> constructed without a commission stores
  \<open>max (quantity * 0.005) 1.00\<close>; one constructed with a commission stores that
  commission unchanged.
\<close>

theorem fill_commission_default:
  "fill_commission (FillEvent_init ti symbol ex qty direction fc None) = max (real_of_int qty * 0.005) 1.00
   \<and> fill_commission (FillEvent_init ti symbol ex qty direction fc (Some c)) = c"
  by (simp add: FillEvent_init_def calculate_commission_def max_def)

text \<open>
  Claim C8, as stated, asks for a commission of 1.25 at a quantity of 50. The
  constructor yields 1.00 there: 50 * 0.005 = 0.25 is not above 1.
\<close>

theorem fill_commission_50_counterexample:
  "fill_commission (FillEvent_init 0 ''SPY'' ''ARCA'' 50 ''BUY'' 0 None) = 1.00
   \<and> fill_commission (FillEvent_init 0 ''SPY'' ''ARCA'' 50 ''BUY'' 0 None) \<noteq> 1.25"
  by (simp add: FillEvent_init_def calculate_commission_def)

text \<open>
  Claim C8, amended. A \<open>FillEvent\<close> constructed with no explicit commission has a
  commission of 1.00 at quantity 50, of 1.00 at quantity 100 and of 1.50 at quantity 300.
\<close>

theorem fill_commission_examples:
  "fill_commission (FillEvent_init ti symbol ex 50 direction fc None) = 1.00
   \<and> fill_commission (FillEvent_init ti symbol ex 100 direction fc None) = 1.00
   \<and> fill_commission (FillEvent_init ti symbol ex 300 direction fc None) = 1.50"
  by (simp add: FillEvent_init_def calculate_commission_def)

section \<open>Cash\<close>



lemma update_signal_portfolio: "update_signal ev p q = Inr (p', q') \<Longrightarrow> p' = p"
  by (auto simp: update_signal_def and_then_eq_Inr split: if_splits)




section \<open>Marking to market\<close>


lemma update_timeindex_Inr:
  assumes "update_timeindex bars ev p = Inr p'"
  shows "\<exists>s0 rest latest dp cash comm dh.
           p_symbol_list p = s0 # rest
         \<and> get_latest_bar_datetime bars s0 = Inr latest
         \<and> copy_positions (p_symbol_list p) (current_positions p)
              ((symbol_dict (p_symbol_list p) (Num 0))(''datetime'' \<mapsto> Stamp latest)) = Inr dp
         \<and> current_holdings p ''cash'' = Some cash
         \<and> current_holdings p ''commission'' = Some comm
         \<and> mark_holdings (p_symbol_list p) bars (current_positions p)
              ((symbol_dict (p_symbol_list p) (Num 0))
                 (''datetime'' \<mapsto> Stamp latest, ''cash'' \<mapsto> Num cash,
                  ''commission'' \<mapsto> Num comm, ''total'' \<mapsto> Num cash)) = Inr dh
         \<and> p' = p\<lparr>all_positions := all_positions p @ [dp], all_holdings := all_holdings p @ [dh]\<rparr>"
proof (cases "p_symbol_list p")
  case Nil
  then show ?thesis using assms by (simp add: update_timeindex_def)
next
  case (Cons s0 rest)
  have "update_timeindex bars ev p =
     and_then (get_latest_bar_datetime bars s0)
            (\<lambda>latest_datetime.
               and_then
                 (copy_positions (p_symbol_list p) (current_positions p)
                    ((symbol_dict (p_symbol_list p) (Num 0))(''datetime'' \<mapsto> Stamp latest_datetime)))
                 (\<lambda>dp.
                    and_then (dict_get (current_holdings p) ''cash'')
                      (\<lambda>cash.
                         and_then (dict_get (current_holdings p) ''commission'')
                           (\<lambda>comm.
                              and_then
                                (mark_holdings (p_symbol_list p) bars (current_positions p)
                                   ((symbol_dict (p_symbol_list p) (Num 0))
                                      (''datetime'' \<mapsto> Stamp latest_datetime, ''cash'' \<mapsto> Num cash,
                                       ''commission'' \<mapsto> Num comm, ''total'' \<mapsto> Num cash)))
                                (\<lambda>dh.
                                   Inr (p\<lparr>all_positions := all_positions p @ [dp],
                                          all_holdings := all_holdings p @ [dh]\<rparr>))))))"
    unfolding update_timeindex_def by (subst Cons) simp
  with assms Cons show ?thesis
    by (fastforce simp: and_then_eq_Inr dict_get_eq_Inr)
qed




section \<open>Sizing of orders\<close>

lemma update_signal_order:
  assumes "current_positions p symbol = Some n"
  shows "update_signal (SignalEvent sid symbol dt st strength) p q =
     Inr (p, q @ [if st = ''LONG'' \<and> n = 0 then Some (OrderEvent symbol ''MKT'' 100 ''BUY'')
                  else if st = ''SHORT'' \<and> n = 0 then Some (OrderEvent symbol ''MKT'' 100 ''SELL'')
                  else if st = ''EXIT'' \<and> n > 0 then Some (OrderEvent symbol ''MKT'' \<bar>n\<bar> ''SELL'')
                  else if st = ''EXIT'' \<and> n < 0 then Some (OrderEvent symbol ''MKT'' \<bar>n\<bar> ''BUY'')
                  else None])"
  using assms by (simp add: update_signal_def dict_get_def queue_put_def Let_def)

lemma update_fill_position:
  assumes "update_fill bars (FillEvent ti symbol ex qty direction fc comm) p = Inr p'"
    and "current_positions p symbol = Some n"
  shows "current_positions p' symbol = Some (n + fill_dir direction * qty)"
  using assms
  by (auto simp: update_positions_from_fill_def update_holdings_from_fill_def and_then_eq_Inr
        dict_add_eq_Inr dict_sub_eq_Inr Let_def)

text \<open>
  Claim C4, amended. For a signal on a symbol whose position is \<open>n\<close>, \<open>update_signal\<close>
  puts exactly one item on the queue: a market order to BUY 100 when the signal is LONG
  and \<open>n = 0\<close>; to SELL 100 when it is SHORT and \<open>n = 0\<close>; to SELL \<open>\<bar>n\<bar>\<close> when it is
  EXIT and \<open>n > 0\<close>; to BUY \<open>\<bar>n\<bar>\<close> when it is EXIT and \<open>n < 0\<close>; and \<open>None\<close>, no
  order, in every other case. Of two LONG signals for a flat symbol with the fill of
  the first order (BUY 100) applied in between, the first yields the order and the second
  yields none; two LONG signals for a symbol whose position is not zero yield no order.
\<close>

theorem naive_order_policy:
  "(current_positions p symbol = Some n \<longrightarrow>
      update_signal (SignalEvent sid symbol dt st strength) p q =
        Inr (p, q @ [if st = ''LONG'' \<and> n = 0 then Some (OrderEvent symbol ''MKT'' 100 ''BUY'')
                     else if st = ''SHORT'' \<and> n = 0 then Some (OrderEvent symbol ''MKT'' 100 ''SELL'')
                     else if st = ''EXIT'' \<and> n > 0 then Some (OrderEvent symbol ''MKT'' \<bar>n\<bar> ''SELL'')
                     else if st = ''EXIT'' \<and> n < 0 then Some (OrderEvent symbol ''MKT'' \<bar>n\<bar> ''BUY'')
                     else None]))
   \<and> (current_positions p symbol = Some 0
        \<and> update_fill bars (FillEvent ti symbol ex 100 ''BUY'' fc comm) p = Inr p1 \<longrightarrow>
          update_signal (SignalEvent sid symbol dt ''LONG'' strength) p q =
            Inr (p, q @ [Some (OrderEvent symbol ''MKT'' 100 ''BUY'')])
        \<and> update_signal (SignalEvent sid symbol dt ''LONG'' strength) p1 q1 = Inr (p1, q1 @ [None]))
   \<and> (current_positions p symbol = Some n \<and> n \<noteq> 0 \<longrightarrow>
          two_signals (SignalEvent sid symbol dt ''LONG'' strength)
            (SignalEvent sid symbol dt ''LONG'' strength) p q = Inr (p, q @ [None, None]))"
proof (intro conjI impI)
  assume "current_positions p symbol = Some n"
  then show "update_signal (SignalEvent sid symbol dt st strength) p q =
        Inr (p, q @ [if st = ''LONG'' \<and> n = 0 then Some (OrderEvent symbol ''MKT'' 100 ''BUY'')
                     else if st = ''SHORT'' \<and> n = 0 then Some (OrderEvent symbol ''MKT'' 100 ''SELL'')
                     else if st = ''EXIT'' \<and> n > 0 then Some (OrderEvent symbol ''MKT'' \<bar>n\<bar> ''SELL'')
                     else if st = ''EXIT'' \<and> n < 0 then Some (OrderEvent symbol ''MKT'' \<bar>n\<bar> ''BUY'')
                     else None])"
    by (rule update_signal_order)
next
  assume a: "current_positions p symbol = Some 0
        \<and> update_fill bars (FillEvent ti symbol ex 100 ''BUY'' fc comm) p = Inr p1"
  then show "update_signal (SignalEvent sid symbol dt ''LONG'' strength) p q =
            Inr (p, q @ [Some (OrderEvent symbol ''MKT'' 100 ''BUY'')])"
    by (simp add: update_signal_order)
  from a have "current_positions p1 symbol = Some (0 + fill_dir ''BUY'' * 100)"
    using update_fill_position by blast
  then have "current_positions p1 symbol = Some 100"
    by (simp add: fill_dir_def)
  then show "update_signal (SignalEvent sid symbol dt ''LONG'' strength) p1 q1 = Inr (p1, q1 @ [None])"
    by (simp add: update_signal_order)
next
  assume "current_positions p symbol = Some n \<and> n \<noteq> 0"
  then show "two_signals (SignalEvent sid symbol dt ''LONG'' strength)
            (SignalEvent sid symbol dt ''LONG'' strength) p q = Inr (p, q @ [None, None])"
    by (simp add: two_signals_def update_signal_order)
qed

text \<open>
  Claim C4, as stated, ends with: two consecutive LONG signals for a symbol already long
  produce exactly one order in total. For a portfolio already long 100 shares, two LONG
  signals handled one after the other put \<open>None\<close> twice: no order at all.
\<close>

theorem naive_order_policy_counterexample:
  "current_positions long_spy_portfolio ''SPY'' = Some 100
   \<and> map_sum id snd
       (two_signals (SignalEvent 1 ''SPY'' 2 ''LONG'' 1) (SignalEvent 1 ''SPY'' 3 ''LONG'' 1)
          long_spy_portfolio []) = Inr [None, None]"
  by code_simp

theorem naive_order_policy_witness:
  "\<exists>p1. update_fill (one_bar_feed [''SPY''] 1 10) (FillEvent 1 ''SPY'' ''ARCA'' 100 ''BUY'' 0 1)
           (PortfolioHFT_init (one_bar_feed [''SPY''] 1 10) 0 100000) = Inr p1
      \<and> update_signal (SignalEvent 1 ''SPY'' 1 ''LONG'' 1)
           (PortfolioHFT_init (one_bar_feed [''SPY''] 1 10) 0 100000) []
         = Inr (PortfolioHFT_init (one_bar_feed [''SPY''] 1 10) 0 100000,
                [Some (OrderEvent ''SPY'' ''MKT'' 100 ''BUY'')])
      \<and> update_signal (SignalEvent 1 ''SPY'' 1 ''LONG'' 1) p1 [] = Inr (p1, [None])
      \<and> update_signal (SignalEvent 1 ''SPY'' 1 ''EXIT'' 1) p1 []
         = Inr (p1, [Some (OrderEvent ''SPY'' ''MKT'' 100 ''SELL'')])
      \<and> two_signals (SignalEvent 1 ''SPY'' 1 ''LONG'' 1) (SignalEvent 1 ''SPY'' 1 ''LONG'' 1) p1 []
         = Inr (p1, [None, None])"
proof -
  let ?bars = "one_bar_feed [''SPY''] 1 10"
  let ?p = "PortfolioHFT_init ?bars 0 100000"
  let ?f = "FillEvent 1 ''SPY'' ''ARCA'' 100 ''BUY'' 0 1"
  have "finished_ok (Some (update_fill ?bars ?f ?p))"
    by code_simp
  then obtain p1 where p1: "update_fill ?bars ?f ?p = Inr p1"
    using finished_okE by blast
  have n0: "current_positions ?p ''SPY'' = Some 0"
    by code_simp
  have "and_then (update_fill ?bars ?f ?p) (\<lambda>p. dict_get (current_positions p) ''SPY'') = Inr 100"
    by code_simp
  then have n1: "current_positions p1 ''SPY'' = Some 100"
    using p1 by (simp add: dict_get_eq_Inr)
  note T = naive_order_policy [of ?p "''SPY''" 0 1 1 "''LONG''" 1 "[]" ?bars 1 "''ARCA''" 0 1 p1 "[]"]
  note U = naive_order_policy [of p1 "''SPY''" 100 1 1 "''EXIT''" 1 "[]"]
  from T n0 p1 have a: "update_signal (SignalEvent 1 ''SPY'' 1 ''LONG'' 1) ?p [] =
      Inr (?p, [Some (OrderEvent ''SPY'' ''MKT'' 100 ''BUY'')])"
    and b: "update_signal (SignalEvent 1 ''SPY'' 1 ''LONG'' 1) p1 [] = Inr (p1, [None])"
    by simp_all
  from U n1 have c: "update_signal (SignalEvent 1 ''SPY'' 1 ''EXIT'' 1) p1 []
         = Inr (p1, [Some (OrderEvent ''SPY'' ''MKT'' 100 ''SELL'')])"
    and d: "two_signals (SignalEvent 1 ''SPY'' 1 ''LONG'' 1) (SignalEvent 1 ''SPY'' 1 ''LONG'' 1) p1 []
         = Inr (p1, [None, None])"
    by simp_all
  show ?thesis using p1 a b c d by blast
qed

section \<open>Signals that produce no order\<close>

lemma handle_event_None: "handle_event calc exec None b = Inr b"
  by (simp add: handle_event_def)

lemma drain_None:
  "drain calc exec (Suc m) (b\<lparr>events := None # rest\<rparr>) = drain calc exec m (b\<lparr>events := rest\<rparr>)"
  by (simp add: queue_get_def handle_event_None)

text \<open>
  Claim C10. For a signal whose sizing preconditions fail (LONG or SHORT at a position
  that is not zero, EXIT at position zero), \<open>update_signal\<close> puts \<open>None\<close> on the queue
  and leaves the portfolio as it was; dispatching the signal counts one signal and
  changes nothing else. The loop dequeues a \<open>None\<close> and goes on with the rest of the
  queue from the same state: nothing is executed, no counter moves and the portfolio
  is unchanged.
\<close>

theorem dropped_signal_puts_None:
  "(current_positions (bt_portfolio b) symbol = Some n
      \<and> ((st = ''LONG'' \<or> st = ''SHORT'') \<and> n \<noteq> 0 \<or> st = ''EXIT'' \<and> n = 0) \<longrightarrow>
        update_signal (SignalEvent sid symbol dt st strength) (bt_portfolio b) (events b)
          = Inr (bt_portfolio b, events b @ [None])
      \<and> handle_event calc exec (Some (SignalEvent sid symbol dt st strength)) b
          = Inr (b\<lparr>events := events b @ [None], signals := signals b + 1\<rparr>))
   \<and> handle_event calc exec None b = Inr b
   \<and> drain calc exec (Suc m) (b\<lparr>events := None # rest\<rparr>) = drain calc exec m (b\<lparr>events := rest\<rparr>)"
proof (intro conjI impI)
  assume a: "current_positions (bt_portfolio b) symbol = Some n
      \<and> ((st = ''LONG'' \<or> st = ''SHORT'') \<and> n \<noteq> 0 \<or> st = ''EXIT'' \<and> n = 0)"
  then have "update_signal (SignalEvent sid symbol dt st strength) (bt_portfolio b) (events b)
       = Inr (bt_portfolio b,
          events b @ [if st = ''LONG'' \<and> n = 0 then Some (OrderEvent symbol ''MKT'' 100 ''BUY'')
                  else if st = ''SHORT'' \<and> n = 0 then Some (OrderEvent symbol ''MKT'' 100 ''SELL'')
                  else if st = ''EXIT'' \<and> n > 0 then Some (OrderEvent symbol ''MKT'' \<bar>n\<bar> ''SELL'')
                  else if st = ''EXIT'' \<and> n < 0 then Some (OrderEvent symbol ''MKT'' \<bar>n\<bar> ''BUY'')
                  else None])"
    using update_signal_order by blast
  with a show u: "update_signal (SignalEvent sid symbol dt st strength) (bt_portfolio b) (events b)
          = Inr (bt_portfolio b, events b @ [None])"
    by auto
  then show "handle_event calc exec (Some (SignalEvent sid symbol dt st strength)) b
          = Inr (b\<lparr>events := events b @ [None], signals := signals b + 1\<rparr>)"
    by (simp add: handle_event_def)
next
  show "handle_event calc exec None b = Inr b"
    by (rule handle_event_None)
next
  show "drain calc exec (Suc m) (b\<lparr>events := None # rest\<rparr>) = drain calc exec m (b\<lparr>events := rest\<rparr>)"
    by (rule drain_None)
qed

theorem dropped_signal_puts_None_witness:
  "current_positions (bt_portfolio long_spy_backtest) ''SPY'' = Some 100
   \<and> handle_event no_signals simulated_execute_order (Some (SignalEvent 1 ''SPY'' 2 ''LONG'' 1))
        long_spy_backtest = Inr (long_spy_backtest\<lparr>events := [None], signals := 2\<rparr>)
   \<and> drain no_signals simulated_execute_order 2 (long_spy_backtest\<lparr>events := [None]\<rparr>)
        = Some (Inr (long_spy_backtest\<lparr>events := []\<rparr>))"
proof -
  have n: "current_positions (bt_portfolio long_spy_backtest) ''SPY'' = Some 100"
    by code_simp
  have e: "events long_spy_backtest = []" and s: "signals long_spy_backtest = 1"
    by (simp_all add: long_spy_backtest_def)
  note T = dropped_signal_puts_None [of long_spy_backtest "''SPY''" 100 "''LONG''" 1 2 1
      no_signals simulated_execute_order "Suc 0" "[]"]
  from T n e s have 1: "handle_event no_signals simulated_execute_order
        (Some (SignalEvent 1 ''SPY'' 2 ''LONG'' 1)) long_spy_backtest
        = Inr (long_spy_backtest\<lparr>events := [None], signals := 2\<rparr>)"
    by simp
  from T have "drain no_signals simulated_execute_order 2 (long_spy_backtest\<lparr>events := [None]\<rparr>)
      = drain no_signals simulated_execute_order (Suc 0) (long_spy_backtest\<lparr>events := []\<rparr>)"
    by (simp add: numeral_2_eq_2)
  then have 2: "drain no_signals simulated_execute_order 2 (long_spy_backtest\<lparr>events := [None]\<rparr>)
        = Some (Inr (long_spy_backtest\<lparr>events := []\<rparr>))"
    by (simp add: queue_get_def)
  show ?thesis using n 1 2 by simp
qed

section \<open>The histories\<close>

lemma copy_positions_frame:
  "copy_positions sl cp dp = Inr dp' \<Longrightarrow> k \<notin> set sl \<Longrightarrow> dp' k = dp k"
  by (induction sl arbitrary: dp) (auto split: option.splits)

lemma mark_holdings_frame:
  "mark_holdings sl bars cp dh = Inr dh' \<Longrightarrow> k \<notin> set sl \<Longrightarrow> k \<noteq> ''total'' \<Longrightarrow> dh' k = dh k"
proof (induction sl arbitrary: dh)
  case Nil
  then show ?case by simp
next
  case (Cons s ss)
  from Cons.prems(1) obtain n px t where
    rec: "mark_holdings ss bars cp (dh(s \<mapsto> Num (real_of_int n * px),
            ''total'' \<mapsto> Num (t + real_of_int n * px))) = Inr dh'"
    by (cases "cp s"; cases "get_latest_bar_value bars s ''close''";
        cases "(dh(s \<mapsto> Num (real_of_int (the (cp s)) * projr (get_latest_bar_value bars s ''close'')))) ''total''";
        cases "the ((dh(s \<mapsto> Num (real_of_int (the (cp s)) * projr (get_latest_bar_value bars s ''close'')))) ''total'')")
       (simp_all add: Let_def)
  from Cons.IH [OF rec] Cons.prems(2,3) show ?case by simp
qed

lemma update_timeindex_histories:
  assumes "update_timeindex bars ev p = Inr p'"
  shows "p_symbol_list p' = p_symbol_list p
       \<and> length (all_positions p') = Suc (length (all_positions p))
       \<and> length (all_holdings p') = Suc (length (all_holdings p))
       \<and> (''datetime'' \<notin> set (p_symbol_list p) \<longrightarrow>
            (\<exists>t. get_latest_bar_datetime bars (hd (p_symbol_list p)) = Inr t
               \<and> timestamps (all_positions p') = timestamps (all_positions p) @ [Some (Stamp t)]
               \<and> timestamps (all_holdings p') = timestamps (all_holdings p) @ [Some (Stamp t)]))"
proof -
  from update_timeindex_Inr [OF assms]
  obtain s0 rest latest dp cash comm dh where sl: "p_symbol_list p = s0 # rest"
    and latest: "get_latest_bar_datetime bars s0 = Inr latest"
    and dp: "copy_positions (p_symbol_list p) (current_positions p)
              ((symbol_dict (p_symbol_list p) (Num 0))(''datetime'' \<mapsto> Stamp latest)) = Inr dp"
    and dh: "mark_holdings (p_symbol_list p) bars (current_positions p)
              ((symbol_dict (p_symbol_list p) (Num 0))
                 (''datetime'' \<mapsto> Stamp latest, ''cash'' \<mapsto> Num cash,
                  ''commission'' \<mapsto> Num comm, ''total'' \<mapsto> Num cash)) = Inr dh"
    and p': "p' = p\<lparr>all_positions := all_positions p @ [dp], all_holdings := all_holdings p @ [dh]\<rparr>"
    by blast
  have "dp ''datetime'' = Some (Stamp latest) \<and> dh ''datetime'' = Some (Stamp latest)"
    if "''datetime'' \<notin> set (p_symbol_list p)"
    using copy_positions_frame [OF dp that] mark_holdings_frame [OF dh that] by simp
  then show ?thesis
    using sl latest p' by (simp add: timestamps_def)
qed

lemma update_fill_histories:
  "update_fill bars ev p = Inr p' \<Longrightarrow>
     p_symbol_list p' = p_symbol_list p \<and> all_positions p' = all_positions p
     \<and> all_holdings p' = all_holdings p"
  by (cases ev)
     (auto simp: update_positions_from_fill_def update_holdings_from_fill_def and_then_eq_Inr
        Let_def split: if_splits)

lemma ledger_step_histories:
  assumes "ledger_step c p = Inr p'"
  shows "p_symbol_list p' = p_symbol_list p
       \<and> length (all_positions p') = length (all_positions p) + timeindex_calls [c]
       \<and> length (all_holdings p') = length (all_holdings p) + timeindex_calls [c]
       \<and> (''datetime'' \<notin> set (p_symbol_list p) \<longrightarrow>
            timestamps (all_positions p') = timestamps (all_positions p)
               @ map (\<lambda>t. Some (Stamp t)) (reported_times (hd (p_symbol_list p)) [c])
          \<and> timestamps (all_holdings p') = timestamps (all_holdings p)
               @ map (\<lambda>t. Some (Stamp t)) (reported_times (hd (p_symbol_list p)) [c]))"
proof (cases c)
  case (Timeindex_call bars ev)
  with assms have "update_timeindex bars ev p = Inr p'" by simp
  from update_timeindex_histories [OF this] show ?thesis
    using Timeindex_call by auto
next
  case (Signal_call ev q)
  with assms have "p' = p"
    by (auto simp: and_then_eq_Inr dest: update_signal_portfolio)
  then show ?thesis using Signal_call by simp
next
  case (Fill_call bars ev)
  with assms have "update_fill bars ev p = Inr p'" by simp
  from update_fill_histories [OF this] show ?thesis
    using Fill_call by simp
qed

lemma timeindex_calls_Cons: "timeindex_calls (c # cs) = timeindex_calls [c] + timeindex_calls cs"
  by (cases c) simp_all

lemma reported_times_Cons: "reported_times s0 (c # cs) = reported_times s0 [c] @ reported_times s0 cs"
  by (cases c) (simp_all split: sum.splits)

lemma ledger_run_histories:
  assumes "ledger_run cs p = Inr p'"
  shows "p_symbol_list p' = p_symbol_list p
       \<and> length (all_positions p') = length (all_positions p) + timeindex_calls cs
       \<and> length (all_holdings p') = length (all_holdings p) + timeindex_calls cs
       \<and> (''datetime'' \<notin> set (p_symbol_list p) \<longrightarrow>
            timestamps (all_positions p') = timestamps (all_positions p)
               @ map (\<lambda>t. Some (Stamp t)) (reported_times (hd (p_symbol_list p)) cs)
          \<and> timestamps (all_holdings p') = timestamps (all_holdings p)
               @ map (\<lambda>t. Some (Stamp t)) (reported_times (hd (p_symbol_list p)) cs))"
  using assms
proof (induction cs arbitrary: p)
  case Nil
  then show ?case by simp
next
  case (Cons c cs)
  from Cons.prems obtain p1 where 1: "ledger_step c p = Inr p1" and 2: "ledger_run cs p1 = Inr p'"
    by (auto simp: and_then_eq_Inr)
  note S = ledger_step_histories [OF 1]
  note R = Cons.IH [OF 2]
  show ?case
    using S R
    by (simp add: timeindex_calls_Cons [of c cs] reported_times_Cons [of _ c cs] del: timeindex_calls.simps reported_times.simps)
qed

text \<open>
  Claim C2, amended. After any run of the ledger from its construction that calls
  \<open>update_timeindex\<close> exactly k times, both histories hold exactly k + 1 records: the seed
  record and one record per call. When no symbol is named \<open>datetime\<close>, the timestamps of
  both histories are the start date followed by the times that the data handler
  reported for the first symbol at the k calls, in the order of the calls.
\<close>

theorem ledger_append:
  "ledger_run calls (PortfolioHFT_init bars sd capital) = Inr p \<longrightarrow>
     length (all_positions p) = timeindex_calls calls + 1
   \<and> length (all_holdings p) = timeindex_calls calls + 1
   \<and> (''datetime'' \<notin> set (symbol_list bars) \<longrightarrow>
        timestamps (all_positions p)
          = map (\<lambda>t. Some (Stamp t)) (sd # reported_times (hd (symbol_list bars)) calls)
      \<and> timestamps (all_holdings p)
          = map (\<lambda>t. Some (Stamp t)) (sd # reported_times (hd (symbol_list bars)) calls))"
proof
  assume "ledger_run calls (PortfolioHFT_init bars sd capital) = Inr p"
  from ledger_run_histories [OF this]
  show "length (all_positions p) = timeindex_calls calls + 1
   \<and> length (all_holdings p) = timeindex_calls calls + 1
   \<and> (''datetime'' \<notin> set (symbol_list bars) \<longrightarrow>
        timestamps (all_positions p)
          = map (\<lambda>t. Some (Stamp t)) (sd # reported_times (hd (symbol_list bars)) calls)
      \<and> timestamps (all_holdings p)
          = map (\<lambda>t. Some (Stamp t)) (sd # reported_times (hd (symbol_list bars)) calls))"
    by (simp add: PortfolioHFT_init_def construct_all_positions_def construct_all_holdings_def
          timestamps_def)
qed

text \<open>
  Claim C2, as stated, asks for strictly increasing timestamps. A complete run over a
  file with one bar, dated 1, from a start date of 0 ends without error with three
  records in each history, dated 0, 1 and 1: \<open>update_bars\<close> puts a \<open>MarketEvent\<close> also
  on the call that finds the iterator exhausted, and the record for that event repeats
  the time of the last bar.
\<close>

theorem ledger_append_counterexample:
  "finished_ok (run_backtest no_signals simulated_execute_order 5 5 one_bar_backtest)
   \<and> map_option (timestamps \<circ> all_holdings)
       (final_portfolio (run_backtest no_signals simulated_execute_order 5 5 one_bar_backtest))
     = Some [Some (Stamp 0), Some (Stamp 1), Some (Stamp 1)]
   \<and> map_option (timestamps \<circ> all_positions)
       (final_portfolio (run_backtest no_signals simulated_execute_order 5 5 one_bar_backtest))
     = Some [Some (Stamp 0), Some (Stamp 1), Some (Stamp 1)]
   \<and> \<not> sorted_wrt (<) [0, 1, 1 :: datetime]"
  by code_simp

theorem ledger_append_witness:
  "\<exists>p. ledger_run [Timeindex_call (one_bar_feed [''SPY''] 1 10) MarketEvent,
                    Signal_call (SignalEvent 1 ''SPY'' 1 ''LONG'' 1) [],
                    Fill_call (one_bar_feed [''SPY''] 1 10) (FillEvent 1 ''SPY'' ''ARCA'' 100 ''BUY'' 0 1),
                    Timeindex_call (one_bar_feed [''SPY''] 2 12) MarketEvent]
          (PortfolioHFT_init (one_bar_feed [''SPY''] 1 10) 0 100000) = Inr p
      \<and> length (all_positions p) = 3 \<and> length (all_holdings p) = 3
      \<and> timestamps (all_positions p) = [Some (Stamp 0), Some (Stamp 1), Some (Stamp 2)]
      \<and> timestamps (all_holdings p) = [Some (Stamp 0), Some (Stamp 1), Some (Stamp 2)]"
proof -
  let ?calls = "[Timeindex_call (one_bar_feed [''SPY''] 1 10) MarketEvent,
                    Signal_call (SignalEvent 1 ''SPY'' 1 ''LONG'' 1) [],
                    Fill_call (one_bar_feed [''SPY''] 1 10) (FillEvent 1 ''SPY'' ''ARCA'' 100 ''BUY'' 0 1),
                    Timeindex_call (one_bar_feed [''SPY''] 2 12) MarketEvent]"
  let ?bars = "one_bar_feed [''SPY''] 1 10"
  have "finished_ok (Some (ledger_run ?calls (PortfolioHFT_init ?bars 0 100000)))"
    by code_simp
  then obtain p where p: "ledger_run ?calls (PortfolioHFT_init ?bars 0 100000) = Inr p"
    using finished_okE by blast
  have sl: "symbol_list ?bars = [''SPY'']"
    by (simp add: one_bar_feed_def)
  have n: "timeindex_calls ?calls = 2"
    by simp
  have r: "reported_times ''SPY'' ?calls = [1, 2]"
    by code_simp
  from ledger_append [of ?calls ?bars 0 100000 p] p sl n r
  have "length (all_positions p) = 3 \<and> length (all_holdings p) = 3
      \<and> timestamps (all_positions p) = [Some (Stamp 0), Some (Stamp 1), Some (Stamp 2)]
      \<and> timestamps (all_holdings p) = [Some (Stamp 0), Some (Stamp 1), Some (Stamp 2)]"
    by simp
  with p show ?thesis by blast
qed

section \<open>The order of dispatch\<close>
















section \<open>Items of an unknown type\<close>

text \<open>
  Claim C9, as stated, asks that an event of an unknown type aborts the run. A drain
  over a queue that holds an object of type \<open>TICK\<close> ahead of a \<open>MarketEvent\<close> ends
  without an exception, having dequeued both, and the \<open>MarketEvent\<close> behind it has
  added its record to the holdings.
\<close>

theorem unknown_event_counterexample:
  "finished_ok (drain no_signals simulated_execute_order 3 unknown_type_backtest)
   \<and> drain_log no_signals simulated_execute_order 3 unknown_type_backtest
       = [Some (OtherEvent ''TICK''), Some MarketEvent]
   \<and> map_option (length \<circ> all_holdings)
       (final_portfolio (drain no_signals simulated_execute_order 3 unknown_type_backtest)) = Some 2"
  by code_simp

text \<open>
  Claim C9, amended. When the drain dequeues an event whose type is none of \<open>MARKET\<close>,
  \<open>SIGNAL\<close>, \<open>ORDER\<close> and \<open>FILL\<close>, no handler is called, no counter moves and no
  exception is raised: the state stays as it is and the loop goes on with the rest of
  the queue.
\<close>

theorem unknown_event_skipped:
  "event_type ev \<noteq> ''MARKET'' \<and> event_type ev \<noteq> ''SIGNAL'' \<and> event_type ev \<noteq> ''ORDER''
     \<and> event_type ev \<noteq> ''FILL'' \<longrightarrow>
       handle_event calc exec (Some ev) b = Inr b
     \<and> drain calc exec (Suc n) (b\<lparr>events := Some ev # rest\<rparr>) = drain calc exec n (b\<lparr>events := rest\<rparr>)"
  by (simp add: handle_event_def queue_get_def)

theorem unknown_event_skipped_witness:
  "handle_event no_signals simulated_execute_order (Some (OtherEvent ''TICK'')) unknown_type_backtest
     = Inr unknown_type_backtest
   \<and> drain no_signals simulated_execute_order 3 unknown_type_backtest
     = drain no_signals simulated_execute_order 2 (unknown_type_backtest\<lparr>events := [Some MarketEvent]\<rparr>)"
proof -
  have e: "unknown_type_backtest = unknown_type_backtest\<lparr>events := [Some (OtherEvent ''TICK''), Some MarketEvent]\<rparr>"
    by (simp add: unknown_type_backtest_def)
  from unknown_event_skipped [of "OtherEvent ''TICK''" no_signals simulated_execute_order
      unknown_type_backtest 2 "[Some MarketEvent]"]
  have "handle_event no_signals simulated_execute_order (Some (OtherEvent ''TICK'')) unknown_type_backtest
     = Inr unknown_type_backtest"
    and "drain no_signals simulated_execute_order (Suc 2)
           (unknown_type_backtest\<lparr>events := [Some (OtherEvent ''TICK''), Some MarketEvent]\<rparr>)
     = drain no_signals simulated_execute_order 2 (unknown_type_backtest\<lparr>events := [Some MarketEvent]\<rparr>)"
    by simp_all
  then show ?thesis
    using e by (simp add: eval_nat_numeral)
qed

section \<open>Returns and the equity curve\<close>

lemma ratios_length: "ratios prev xs = Inr rs \<Longrightarrow> length rs = length xs"
  by (induction xs arbitrary: prev rs) (auto simp: and_then_eq_Inr split: if_splits)

lemma ratios_nth:
  "ratios prev xs = Inr rs \<Longrightarrow> t < length xs \<Longrightarrow>
     rs ! t = Some ((prev # xs) ! Suc t / (prev # xs) ! t - 1)"
proof (induction xs arbitrary: prev rs t)
  case Nil
  then show ?case by simp
next
  case (Cons x xs)
  from Cons.prems(1) obtain rs' where rs': "ratios x xs = Inr rs'"
    and rs: "rs = Some (x / prev - 1) # rs'"
    by (auto simp: and_then_eq_Inr split: if_splits)
  show ?case
  proof (cases t)
    case 0
    with rs show ?thesis by simp
  next
    case (Suc t')
    with Cons.prems(2) have "t' < length xs" by simp
    from Cons.IH [OF rs' this] rs Suc show ?thesis by simp
  qed
qed

lemma cumprod_from_length: "length (cumprod_from acc xs) = length xs"
  by (induction acc xs rule: cumprod_from.induct) simp_all

lemma cumprod_from_ratios:
  "ratios prev xs = Inr rs \<Longrightarrow> t < length xs \<Longrightarrow>
     cumprod_from acc (series_add 1 rs) ! t
       = Some (acc * (\<Prod>i<Suc t. 1 + ((prev # xs) ! Suc i / (prev # xs) ! i - 1)))"
proof (induction xs arbitrary: prev rs t acc)
  case Nil
  then show ?case by simp
next
  case (Cons x xs)
  from Cons.prems(1) obtain rs' where rs': "ratios x xs = Inr rs'"
    and rs: "rs = Some (x / prev - 1) # rs'"
    by (auto simp: and_then_eq_Inr split: if_splits)
  show ?case
  proof (cases t)
    case 0
    with rs show ?thesis by (simp add: series_add_def)
  next
    case (Suc t')
    with Cons.prems(2) have t': "t' < length xs" by simp
    have "cumprod_from acc (series_add 1 rs) ! t
        = cumprod_from (acc * (1 + (x / prev - 1))) (series_add 1 rs') ! t'"
      using rs Suc by (simp add: series_add_def)
    also have "\<dots> = Some (acc * (1 + (x / prev - 1))
        * (\<Prod>i<Suc t'. 1 + ((x # xs) ! Suc i / (x # xs) ! i - 1)))"
      by (rule Cons.IH [OF rs' t'])
    also have "acc * (1 + (x / prev - 1)) * (\<Prod>i<Suc t'. 1 + ((x # xs) ! Suc i / (x # xs) ! i - 1))
        = acc * (\<Prod>i<Suc t. 1 + ((prev # x # xs) ! Suc i / (prev # x # xs) ! i - 1))"
      unfolding Suc by (subst (2) prod.lessThan_Suc_shift) (simp add: mult.assoc)
    finally show ?thesis .
  qed
qed

lemma equity_curve_values:
  assumes "create_equity_curve_dataframe holdings = Inr (returns, ec)"
    and "total_column holdings = Inr totals"
  shows "length returns = length totals \<and> length ec = length totals
       \<and> (\<forall>t. t < length totals \<longrightarrow>
            (if t = 0 then returns ! t = None \<and> ec ! t = None
             else returns ! t = Some (totals ! t / totals ! (t - 1) - 1)
                \<and> ec ! t = Some (\<Prod>i = 1..t. 1 + (totals ! i / totals ! (i - 1) - 1))))"
proof (cases totals)
  case Nil
  with assms show ?thesis
    by (auto simp: create_equity_curve_dataframe_def and_then_eq_Inr cumprod_def series_add_def)
next
  case (Cons x xs)
  with assms obtain rs where rs: "ratios x xs = Inr rs" and returns: "returns = None # rs"
    and ec: "ec = None # cumprod_from 1 (series_add 1 rs)"
    by (auto simp: create_equity_curve_dataframe_def and_then_eq_Inr cumprod_def series_add_def)
  have len: "length rs = length xs"
    using rs by (rule ratios_length)
  have "returns ! t = Some (totals ! t / totals ! (t - 1) - 1)
      \<and> ec ! t = Some (\<Prod>i = 1..t. 1 + (totals ! i / totals ! (i - 1) - 1))"
    if "t < length totals" "t \<noteq> 0" for t
  proof -
    from that obtain t' where t: "t = Suc t'" and t': "t' < length xs"
      using Cons by (cases t) auto
    have 1: "returns ! t = Some (totals ! t / totals ! (t - 1) - 1)"
      using ratios_nth [OF rs t'] returns t Cons by simp
    have "ec ! t = Some (1 * (\<Prod>i<Suc t'. 1 + ((x # xs) ! Suc i / (x # xs) ! i - 1)))"
      using cumprod_from_ratios [OF rs t', of 1] ec t by simp
    also have "(\<Prod>i<Suc t'. 1 + ((x # xs) ! Suc i / (x # xs) ! i - 1))
        = (\<Prod>i = 1..t. 1 + (totals ! i / totals ! (i - 1) - 1))"
      unfolding t Cons One_nat_def by (subst prod.atLeast1_atMost_eq) simp
    finally show ?thesis using 1 by simp
  qed
  then show ?thesis
    using returns ec len Cons by (auto simp: cumprod_from_length series_add_def)
qed


section \<open>Drawdowns\<close>

lemma create_drawdowns_loop_step:
  "t < length pnl \<Longrightarrow>
     create_drawdowns_loop t pnl hwm drawdown duration =
       create_drawdowns_loop (t + 1) pnl (hwm @ [py_max (hwm ! (t - 1)) (pnl ! t)])
         (drawdown[t := fsub ((hwm @ [py_max (hwm ! (t - 1)) (pnl ! t)]) ! t) (pnl ! t)])
         (duration[t := (if (drawdown[t := fsub ((hwm @ [py_max (hwm ! (t - 1)) (pnl ! t)]) ! t) (pnl ! t)]) ! t = Some 0
                         then Some 0 else fadd (duration ! (t - 1)) 1)])"
  by (subst create_drawdowns_loop.simps) (simp add: Let_def)

lemma create_drawdowns_loop_stop:
  "\<not> t < length pnl \<Longrightarrow> create_drawdowns_loop t pnl hwm drawdown duration = (hwm, drawdown, duration)"
  by (subst create_drawdowns_loop.simps) simp

lemma create_drawdowns_loop_inv:
  assumes "create_drawdowns_loop t pnl hwm drawdown duration = (hwm', drawdown', duration')"
    and "length hwm = t" and "1 \<le> t" and "t \<le> length pnl"
    and "length drawdown = length pnl" and "length duration = length pnl"
  shows "length hwm' = length pnl \<and> length drawdown' = length pnl \<and> length duration' = length pnl
       \<and> (\<forall>i<t. hwm' ! i = hwm ! i \<and> drawdown' ! i = drawdown ! i \<and> duration' ! i = duration ! i)
       \<and> (\<forall>i. t \<le> i \<and> i < length pnl \<longrightarrow>
             hwm' ! i = py_max (hwm' ! (i - 1)) (pnl ! i)
           \<and> drawdown' ! i = fsub (hwm' ! i) (pnl ! i)
           \<and> duration' ! i = (if drawdown' ! i = Some 0 then Some 0 else fadd (duration' ! (i - 1)) 1))"
  using assms
proof (induction t pnl hwm drawdown duration rule: create_drawdowns_loop.induct)
  case (1 t pnl hwm drawdown duration)
  show ?case
  proof (cases "t < length pnl")
    case False
    with "1.prems" show ?thesis
      by (auto simp: create_drawdowns_loop_stop)
  next
    case True
    let ?hwm1 = "hwm @ [py_max (hwm ! (t - 1)) (pnl ! t)]"
    let ?dd1 = "drawdown[t := fsub (?hwm1 ! t) (pnl ! t)]"
    let ?du1 = "duration[t := (if ?dd1 ! t = Some 0 then Some 0 else fadd (duration ! (t - 1)) 1)]"
    have rec: "create_drawdowns_loop (t + 1) pnl ?hwm1 ?dd1 ?du1 = (hwm', drawdown', duration')"
      using "1.prems"(1) create_drawdowns_loop_step [OF True] by simp
    have IH: "length hwm' = length pnl \<and> length drawdown' = length pnl \<and> length duration' = length pnl
       \<and> (\<forall>i<t + 1. hwm' ! i = ?hwm1 ! i \<and> drawdown' ! i = ?dd1 ! i \<and> duration' ! i = ?du1 ! i)
       \<and> (\<forall>i. t + 1 \<le> i \<and> i < length pnl \<longrightarrow>
             hwm' ! i = py_max (hwm' ! (i - 1)) (pnl ! i)
           \<and> drawdown' ! i = fsub (hwm' ! i) (pnl ! i)
           \<and> duration' ! i = (if drawdown' ! i = Some 0 then Some 0 else fadd (duration' ! (i - 1)) 1))"
      using "1.IH" [OF True refl refl refl rec] "1.prems" True by simp
    have lt: "length hwm = t" "1 \<le> t" "length drawdown = length pnl" "length duration = length pnl"
      using "1.prems" by simp_all
    have before: "\<forall>i<t. hwm' ! i = hwm ! i \<and> drawdown' ! i = drawdown ! i \<and> duration' ! i = duration ! i"
      using IH lt by (auto simp: nth_append)
    have at_hwm: "hwm' ! t = py_max (hwm ! (t - 1)) (pnl ! t)"
      using IH lt by (auto simp: nth_append)
    have prev_hwm: "hwm' ! (t - 1) = hwm ! (t - 1)"
      using before lt by simp
    have at_dd: "drawdown' ! t = fsub (hwm' ! t) (pnl ! t)"
      using IH lt True at_hwm by (auto simp: nth_append)
    have prev_du: "duration' ! (t - 1) = duration ! (t - 1)"
      using before lt by simp
    have at_du: "duration' ! t = (if drawdown' ! t = Some 0 then Some 0 else fadd (duration' ! (t - 1)) 1)"
    proof -
      have "duration' ! t = ?du1 ! t" using IH by simp
      also have "\<dots> = (if ?dd1 ! t = Some 0 then Some 0 else fadd (duration ! (t - 1)) 1)"
        using lt True by simp
      also have "?dd1 ! t = drawdown' ! t" using IH by simp
      finally show ?thesis using prev_du by simp
    qed
    have here: "hwm' ! i = py_max (hwm' ! (i - 1)) (pnl ! i)
           \<and> drawdown' ! i = fsub (hwm' ! i) (pnl ! i)
           \<and> duration' ! i = (if drawdown' ! i = Some 0 then Some 0 else fadd (duration' ! (i - 1)) 1)"
      if "t \<le> i" "i < length pnl" for i
    proof (cases "i = t")
      case True
      then show ?thesis using at_hwm prev_hwm at_dd at_du by simp
    next
      case False
      with that have "t + 1 \<le> i" by simp
      with IH that show ?thesis by blast
    qed
    show ?thesis
      using IH before here by blast
  qed
qed

lemma drawdown_state_values:
  assumes "drawdown_state pnl = (hwm, drawdown, duration)" and "pnl \<noteq> []"
  shows "length hwm = length pnl \<and> length drawdown = length pnl \<and> length duration = length pnl
       \<and> hwm ! 0 = 0 \<and> drawdown ! 0 = None \<and> duration ! 0 = None
       \<and> (\<forall>t. 1 \<le> t \<and> t < length pnl \<longrightarrow>
             hwm ! t = py_max (hwm ! (t - 1)) (pnl ! t)
           \<and> drawdown ! t = fsub (hwm ! t) (pnl ! t)
           \<and> duration ! t = (if drawdown ! t = Some 0 then Some 0 else fadd (duration ! (t - 1)) 1))"
proof -
  from assms(2) have n: "1 \<le> length pnl"
    by (cases pnl) simp_all
  from assms(1) have loop: "create_drawdowns_loop 1 pnl [0] (replicate (length pnl) None)
      (replicate (length pnl) None) = (hwm, drawdown, duration)"
    by (simp add: drawdown_state_def)
  from assms(2) have "0 < length pnl" by simp
  then have "replicate (length pnl) (None :: real option) ! 0 = None"
    by simp
  moreover have one: "length [0::real] = 1" by simp
  moreover note create_drawdowns_loop_inv [OF loop one order_refl n length_replicate length_replicate]
  ultimately show ?thesis
    by simp
qed

lemma series_max_None: "series_max xs = None \<longleftrightarrow> (\<forall>x\<in>set xs. x = None)"
  by (induction xs) (auto simp: series_max_def split: list.splits if_splits)

lemma fold_max_ge: "(v::real) \<le> fold max vs v \<and> (\<forall>x\<in>set vs. x \<le> fold max vs v)"
proof (induction vs arbitrary: v)
  case Nil
  then show ?case by simp
next
  case (Cons a vs)
  from Cons.IH [of "max a v"] show ?case
    by (auto simp: max_def split: if_splits)
qed

lemma fold_max_in: "fold max vs (v::real) \<in> set (v # vs)"
proof (induction vs arbitrary: v)
  case Nil
  then show ?case by simp
next
  case (Cons a vs)
  from Cons.IH [of "max a v"] show ?case
    by (auto simp: max_def split: if_splits)
qed

lemma series_max_Some:
  assumes "series_max xs = Some m"
  shows "Some m \<in> set xs \<and> (\<forall>v. Some v \<in> set xs \<longrightarrow> v \<le> m)"
proof -
  let ?vs = "map the (filter (\<lambda>x. x \<noteq> None) xs)"
  from assms obtain v vs where vs: "?vs = v # vs" and m: "m = fold max vs v"
    by (auto simp: series_max_def split: list.splits)
  have mem: "\<And>y. y \<in> set ?vs \<longleftrightarrow> Some y \<in> set xs"
    by force
  from fold_max_in [of vs v] m vs have "m \<in> set ?vs" by simp
  moreover from fold_max_ge [of v vs] m vs have "\<forall>y\<in>set ?vs. y \<le> m" by auto
  ultimately show ?thesis using mem by blast
qed


lemma py_max_Some: "py_max a (Some y) = max a y"
  by (simp add: py_max_def max_def)

text \<open>
  Claim C6, as stated, gives the equity curve the base 1.0 at the first record. For the
  totals 100000, 101000 and 99000 the column \<open>equity_curve\<close> is NaN, 1.01, 0.99: the
  first return is NaN (\<open>pct_change\<close>), and \<open>cumprod\<close> leaves a NaN place NaN.
\<close>

theorem equity_curve_counterexample:
  "equity_curve_of three_holdings = Inr [None, Some 1.01, Some 0.99]
   \<and> spec_equity_curve [100000, 101000, 99000] 0 = 1.0
   \<and> [None, Some 1.01, Some 0.99] ! 0 \<noteq> Some (1.0 :: real)"
  by (simp add: spec_equity_curve_def) code_simp

text \<open>
  Claim C6, amended. For a holdings history whose totals are numbers, none of them zero
  before the last: at the first record the return, the equity curve, the drawdown and
  the duration are NaN and the high-water mark is 0. At every later record \<open>t\<close> the
  return is \<open>total(t) / total(t-1) - 1\<close>; the equity curve is the product of
  \<open>1 + return(i)\<close> over \<open>1 \<le> i \<le> t\<close>; the high-water mark is the maximum of the mark
  at \<open>t - 1\<close> and the equity curve at \<open>t\<close>; the drawdown is the mark minus the equity
  curve; the duration is the duration at \<open>t - 1\<close> plus 1 when the drawdown is not 0,
  and 0 otherwise. The reported maximal drawdown and drawdown duration are the maxima of
  the two series over their places that are not NaN.
\<close>

theorem equity_curve_and_drawdowns:
  "total_column holdings = Inr totals \<and> create_equity_curve_dataframe holdings = Inr (returns, ec)
     \<and> drawdown_state ec = (hwm, drawdown, duration) \<longrightarrow>
      length returns = length totals \<and> length ec = length totals
    \<and> (totals \<noteq> [] \<longrightarrow>
          length hwm = length totals \<and> length drawdown = length totals
        \<and> length duration = length totals
        \<and> returns ! 0 = None \<and> ec ! 0 = None \<and> hwm ! 0 = 0
        \<and> drawdown ! 0 = None \<and> duration ! 0 = None)
    \<and> (\<forall>t. 1 \<le> t \<and> t < length totals \<longrightarrow>
           returns ! t = Some (spec_return totals t)
         \<and> ec ! t = Some (spec_equity_curve totals t)
         \<and> hwm ! t = max (hwm ! (t - 1)) (spec_equity_curve totals t)
         \<and> drawdown ! t = Some (hwm ! t - spec_equity_curve totals t)
         \<and> duration ! t = (if drawdown ! t \<noteq> Some 0 then fadd (duration ! (t - 1)) 1 else Some 0))
    \<and> create_drawdowns ec = (drawdown, series_max drawdown, series_max duration)
    \<and> (totals \<noteq> [] \<longrightarrow>
          output_summary_stats ec = Inr (last ec, series_max drawdown, series_max duration))
    \<and> (\<forall>m. series_max drawdown = Some m \<longrightarrow>
          Some m \<in> set drawdown \<and> (\<forall>v. Some v \<in> set drawdown \<longrightarrow> v \<le> m))
    \<and> (\<forall>m. series_max duration = Some m \<longrightarrow>
          Some m \<in> set duration \<and> (\<forall>v. Some v \<in> set duration \<longrightarrow> v \<le> m))"
proof
  assume a: "total_column holdings = Inr totals \<and> create_equity_curve_dataframe holdings = Inr (returns, ec)
     \<and> drawdown_state ec = (hwm, drawdown, duration)"
  then have tc: "total_column holdings = Inr totals"
    and df: "create_equity_curve_dataframe holdings = Inr (returns, ec)"
    and ds: "drawdown_state ec = (hwm, drawdown, duration)"
    by simp_all
  note E = equity_curve_values [OF df tc]
  have len: "length returns = length totals \<and> length ec = length totals"
    using E by simp
  have first: "returns ! 0 = None \<and> ec ! 0 = None" if "totals \<noteq> []"
    using E that by auto
  have later: "returns ! t = Some (spec_return totals t) \<and> ec ! t = Some (spec_equity_curve totals t)"
    if "1 \<le> t" "t < length totals" for t
    using E that by (auto simp: spec_return_def spec_equity_curve_def)
  have D: "length hwm = length ec \<and> length drawdown = length ec \<and> length duration = length ec
       \<and> hwm ! 0 = 0 \<and> drawdown ! 0 = None \<and> duration ! 0 = None
       \<and> (\<forall>t. 1 \<le> t \<and> t < length ec \<longrightarrow>
             hwm ! t = py_max (hwm ! (t - 1)) (ec ! t)
           \<and> drawdown ! t = fsub (hwm ! t) (ec ! t)
           \<and> duration ! t = (if drawdown ! t = Some 0 then Some 0 else fadd (duration ! (t - 1)) 1))"
    if "totals \<noteq> []"
  proof -
    from that len have "ec \<noteq> []" by auto
    from drawdown_state_values [OF ds this] show ?thesis .
  qed
  have 1: "totals \<noteq> [] \<longrightarrow>
          length hwm = length totals \<and> length drawdown = length totals
        \<and> length duration = length totals
        \<and> returns ! 0 = None \<and> ec ! 0 = None \<and> hwm ! 0 = 0
        \<and> drawdown ! 0 = None \<and> duration ! 0 = None"
    using D first len by simp
  have 2: "\<forall>t. 1 \<le> t \<and> t < length totals \<longrightarrow>
           returns ! t = Some (spec_return totals t)
         \<and> ec ! t = Some (spec_equity_curve totals t)
         \<and> hwm ! t = max (hwm ! (t - 1)) (spec_equity_curve totals t)
         \<and> drawdown ! t = Some (hwm ! t - spec_equity_curve totals t)
         \<and> duration ! t = (if drawdown ! t \<noteq> Some 0 then fadd (duration ! (t - 1)) 1 else Some 0)"
  proof (intro allI impI)
    fix t
    assume t: "1 \<le> t \<and> t < length totals"
    then have ne: "totals \<noteq> []" by auto
    from later t have r: "returns ! t = Some (spec_return totals t)"
      and e: "ec ! t = Some (spec_equity_curve totals t)"
      by simp_all
    from D [OF ne] t len have h: "hwm ! t = py_max (hwm ! (t - 1)) (ec ! t)"
      and d: "drawdown ! t = fsub (hwm ! t) (ec ! t)"
      and u: "duration ! t = (if drawdown ! t = Some 0 then Some 0 else fadd (duration ! (t - 1)) 1)"
      by simp_all
    show "returns ! t = Some (spec_return totals t)
         \<and> ec ! t = Some (spec_equity_curve totals t)
         \<and> hwm ! t = max (hwm ! (t - 1)) (spec_equity_curve totals t)
         \<and> drawdown ! t = Some (hwm ! t - spec_equity_curve totals t)
         \<and> duration ! t = (if drawdown ! t \<noteq> Some 0 then fadd (duration ! (t - 1)) 1 else Some 0)"
      using r e h d u by (simp add: py_max_Some fsub_def)
  qed
  have 3: "create_drawdowns ec = (drawdown, series_max drawdown, series_max duration)"
    using ds by (simp add: create_drawdowns_def)
  have 4: "totals \<noteq> [] \<longrightarrow>
          output_summary_stats ec = Inr (last ec, series_max drawdown, series_max duration)"
    using 3 len by (auto simp: output_summary_stats_def)
  have 5: "\<forall>m. series_max drawdown = Some m \<longrightarrow>
          Some m \<in> set drawdown \<and> (\<forall>v. Some v \<in> set drawdown \<longrightarrow> v \<le> m)"
    using series_max_Some by blast
  have 6: "\<forall>m. series_max duration = Some m \<longrightarrow>
          Some m \<in> set duration \<and> (\<forall>v. Some v \<in> set duration \<longrightarrow> v \<le> m)"
    using series_max_Some by blast
  show "length returns = length totals \<and> length ec = length totals
    \<and> (totals \<noteq> [] \<longrightarrow>
          length hwm = length totals \<and> length drawdown = length totals
        \<and> length duration = length totals
        \<and> returns ! 0 = None \<and> ec ! 0 = None \<and> hwm ! 0 = 0
        \<and> drawdown ! 0 = None \<and> duration ! 0 = None)
    \<and> (\<forall>t. 1 \<le> t \<and> t < length totals \<longrightarrow>
           returns ! t = Some (spec_return totals t)
         \<and> ec ! t = Some (spec_equity_curve totals t)
         \<and> hwm ! t = max (hwm ! (t - 1)) (spec_equity_curve totals t)
         \<and> drawdown ! t = Some (hwm ! t - spec_equity_curve totals t)
         \<and> duration ! t = (if drawdown ! t \<noteq> Some 0 then fadd (duration ! (t - 1)) 1 else Some 0))
    \<and> create_drawdowns ec = (drawdown, series_max drawdown, series_max duration)
    \<and> (totals \<noteq> [] \<longrightarrow>
          output_summary_stats ec = Inr (last ec, series_max drawdown, series_max duration))
    \<and> (\<forall>m. series_max drawdown = Some m \<longrightarrow>
          Some m \<in> set drawdown \<and> (\<forall>v. Some v \<in> set drawdown \<longrightarrow> v \<le> m))
    \<and> (\<forall>m. series_max duration = Some m \<longrightarrow>
          Some m \<in> set duration \<and> (\<forall>v. Some v \<in> set duration \<longrightarrow> v \<le> m))"
    using len 1 2 3 4 5 6 by (intro conjI) (rule conjunct1 [OF len] conjunct2 [OF len] 1 2 3 4 5 6)+
qed

theorem equity_curve_and_drawdowns_witness:
  "total_column three_holdings = Inr [100000, 101000, 99000]
   \<and> create_equity_curve_dataframe three_holdings
       = Inr ([None, Some (1 / 100), Some (- (2 / 101))], [None, Some (101 / 100), Some (99 / 100)])
   \<and> drawdown_state [None, Some (101 / 100), Some (99 / 100)]
       = ([0, 101 / 100, 101 / 100], [None, Some 0, Some (1 / 50)], [None, Some 0, Some 1])
   \<and> spec_equity_curve [100000, 101000, 99000] 2 = 99 / 100
   \<and> create_drawdowns [None, Some (101 / 100), Some (99 / 100)]
       = ([None, Some 0, Some (1 / 50)], Some (1 / 50), Some 1)
   \<and> output_summary_stats [None, Some (101 / 100), Some (99 / 100)]
       = Inr (Some (99 / 100), Some (1 / 50), Some 1)"
proof -
  let ?totals = "[100000, 101000, 99000] :: real list"
  let ?returns = "[None, Some (1 / 100), Some (- (2 / 101))] :: series"
  let ?ec = "[None, Some (101 / 100), Some (99 / 100)] :: series"
  let ?hwm = "[0, 101 / 100, 101 / 100] :: real list"
  let ?dd = "[None, Some 0, Some (1 / 50)] :: series"
  let ?du = "[None, Some 0, Some 1] :: series"
  have tc: "total_column three_holdings = Inr ?totals"
    by code_simp
  have df: "create_equity_curve_dataframe three_holdings = Inr (?returns, ?ec)"
    by code_simp
  have ds: "drawdown_state ?ec = (?hwm, ?dd, ?du)"
    by code_simp
  have m1: "series_max ?dd = Some (1 / 50)" and m2: "series_max ?du = Some 1"
    by code_simp+
  note T = equity_curve_and_drawdowns [of three_holdings ?totals ?returns ?ec ?hwm ?dd ?du]
  from T tc df ds
  have "\<forall>t. 1 \<le> t \<and> t < length ?totals \<longrightarrow> ?ec ! t = Some (spec_equity_curve ?totals t)"
    by blast
  from this [rule_format, of 2] have e2: "spec_equity_curve ?totals 2 = 99 / 100"
    by simp
  from T tc df ds have cd: "create_drawdowns ?ec = (?dd, series_max ?dd, series_max ?du)"
    by blast
  from T tc df ds have os: "output_summary_stats ?ec = Inr (last ?ec, series_max ?dd, series_max ?du)"
    by simp
  show ?thesis
    using tc df ds e2 cd os m1 m2 by simp
qed

end
